theory Spec2Isabelle
  imports Complex_Main "HOL-Library.Char_ord" "HOL-Library.List_Lexorder"
begin

section \<open>Loan eligibility prediction: data model\<close>

text \<open>
  The development follows \<^verbatim>\<open>loan_prediction_system.py\<close>. A pandas data frame is a list
  of rows. A Python \<^verbatim>\<open>float\<close> is the \<^typ>\<open>real\<close> that it denotes: every comparison
  of the source is exact on finite floats. The arithmetic of the labeling policy, whose
  result is compared with a threshold, is rounded after each operation as binary64 rounds
  it (\<open>round_double\<close> below); the income ratio and the scaler only feed the forest, which
  is a parameter, and are taken without rounding. A Python \<^verbatim>\<open>int\<close> is an \<^typ>\<open>int\<close>, a
  \<^verbatim>\<open>str\<close> a \<^typ>\<open>string\<close>, ordered by code point as Python orders it.
  An exception is a value \<open>Inl e\<close>; every \<^verbatim>\<open>raise\<close> reachable in the modelled code,
  in the repository or in the library calls it makes, is a branch of the model.
\<close>

datatype error = KeyError | ValueError | NotFittedError | FileNotFoundError

fun exception_name :: "error \<Rightarrow> string" where
  "exception_name KeyError = ''KeyError''"
| "exception_name ValueError = ''ValueError''"
| "exception_name NotFittedError = ''NotFittedError''"
| "exception_name FileNotFoundError = ''FileNotFoundError''"

record applicant =
  income :: real
  credit_score :: int
  employment_status :: string
  loan_type :: string

record labeled = applicant +
  eligibility :: string

section \<open>Arithmetic in double precision\<close>

text \<open>
  An operation on floats returns the double nearest to the exact result, a tie going to
  the neighbour with the even significand. A double other than 0 is an integer of
  magnitude below \<open>2\<^sup>5\<^sup>3\<close> times a power of two, so the doubles around a real \<open>x\<close> with
  \<open>2\<^sup>e \<le> \<bar>x\<bar> < 2\<^sup>e\<^sup>+\<^sup>1\<close> are the multiples of \<open>2\<^sup>e\<^sup>-\<^sup>5\<^sup>2\<close>. The range of the exponent is
  not modelled: no value that the policy computes from a row of the generator (an income
  between 20000 and 500000, a credit score between 300 and 850) overflows or is subnormal.
\<close>

definition pow2 :: "int \<Rightarrow> real" where
  "pow2 e = (if e \<ge> 0 then 2 ^ nat e else 1 / 2 ^ nat (- e))"

definition round_half_even :: "real \<Rightarrow> int" where
  "round_half_even r =
     (let f = \<lfloor>r\<rfloor>; d = r - real_of_int f
      in if d < 1 / 2 then f
         else if d > 1 / 2 then f + 1
         else if even f then f else f + 1)"

definition round_double :: "real \<Rightarrow> real" where
  "round_double x =
     (if x = 0 then 0
      else (let ulp = pow2 (\<lfloor>log 2 \<bar>x\<bar>\<rfloor> - 52)
            in real_of_int (round_half_even (x / ulp)) * ulp))"

section \<open>The labeling policy of \<^verbatim>\<open>generate_loan_data\<close>\<close>

record criteria =
  min_income :: int
  preferred_income :: int
  min_credit :: int
  preferred_credit :: int

definition loan_criteria :: "string \<rightharpoonup> criteria" where
  "loan_criteria = map_of
     [(''Home Loan'', \<lparr>min_income = 50000, preferred_income = 80000,
                        min_credit = 640, preferred_credit = 700\<rparr>),
      (''Education Loan'', \<lparr>min_income = 30000, preferred_income = 50000,
                             min_credit = 620, preferred_credit = 680\<rparr>),
      (''Car Loan'', \<lparr>min_income = 25000, preferred_income = 40000,
                       min_credit = 600, preferred_credit = 660\<rparr>)]"

text \<open>
  The scoring block of \<^verbatim>\<open>determine_eligibility\<close> (lines 80 to 87). The accumulator
  starts at the integer 0, so the first increase leaves the quotient it adds; the
  subtraction of the credit scores is one of integers and exact; every other operation
  is one of floats and is rounded. The literal \<^verbatim>\<open>0.5\<close> is a double, the literal
  \<^verbatim>\<open>0.3\<close> is the double nearest to it. An employment status that is neither
  \<^verbatim>\<open>'Employed'\<close> nor \<^verbatim>\<open>'Self-employed'\<close> adds nothing.
\<close>

definition borderline_score :: "criteria \<Rightarrow> 'a applicant_scheme \<Rightarrow> real" where
  "borderline_score c row =
     (let score = round_double (real_of_int (credit_score row - min_credit c) / 200);
          score = round_double (score +
                    round_double (round_double (income row - real_of_int (min_income c))
                                  / real_of_int (min_income c)))
      in if employment_status row = ''Employed'' then round_double (score + 0.5)
         else if employment_status row = ''Self-employed''
           then round_double (score + round_double 0.3)
         else score)"

text \<open>
  \<^verbatim>\<open>loan_criteria[row['loan_type']]\<close> raises \<^verbatim>\<open>KeyError\<close> on a loan type that is
  not a key; then come the three rejections, the approval and the score, in source order.
\<close>

definition determine_eligibility :: "'a applicant_scheme \<Rightarrow> error + string" where
  "determine_eligibility row =
     (case loan_criteria (loan_type row) of
        None \<Rightarrow> Inl KeyError
      | Some c \<Rightarrow>
          if credit_score row < min_credit c then Inr ''Not Eligible''
          else if employment_status row = ''Unemployed'' \<and> loan_type row \<noteq> ''Education Loan''
            then Inr ''Not Eligible''
          else if income row < real_of_int (min_income c) then Inr ''Not Eligible''
          else if credit_score row \<ge> preferred_credit c
                  \<and> income row \<ge> round_double (real_of_int (preferred_income c) * 1.5)
                  \<and> employment_status row = ''Employed''
            then Inr ''Eligible''
          else Inr (if borderline_score c row > 1 then ''Eligible'' else ''Not Eligible''))"

section \<open>The label encoder\<close>

text \<open>
  \<^verbatim>\<open>sklearn.preprocessing.LabelEncoder\<close>, as the library documents it: an encoder that
  was never fitted has no \<^verbatim>\<open>classes_\<close> (\<open>None\<close>); \<^verbatim>\<open>fit\<close> stores the distinct labels
  in sorted order; \<^verbatim>\<open>transform\<close> gives each label its position in \<^verbatim>\<open>classes_\<close> and
  raises \<^verbatim>\<open>ValueError\<close> on a label that is not there; \<^verbatim>\<open>inverse_transform\<close> reads
  the positions back and raises \<^verbatim>\<open>ValueError\<close> on a position out of range.
\<close>

type_synonym LabelEncoder = "string list option"

fun index_of :: "'a list \<Rightarrow> 'a \<Rightarrow> nat option" where
  "index_of [] y = None"
| "index_of (x # xs) y = (if x = y then Some 0 else map_option Suc (index_of xs y))"

definition LabelEncoder_fit :: "string list \<Rightarrow> LabelEncoder" where
  "LabelEncoder_fit y = Some (sort (remdups y))"

definition LabelEncoder_transform :: "LabelEncoder \<Rightarrow> string list \<Rightarrow> error + nat list" where
  "LabelEncoder_transform enc y =
     (case enc of
        None \<Rightarrow> Inl NotFittedError
      | Some classes \<Rightarrow>
          (case those (map (index_of classes) y) of
             None \<Rightarrow> Inl ValueError
           | Some codes \<Rightarrow> Inr codes))"

definition LabelEncoder_inverse_transform :: "LabelEncoder \<Rightarrow> nat list \<Rightarrow> error + string list" where
  "LabelEncoder_inverse_transform enc y =
     (case enc of
        None \<Rightarrow> Inl NotFittedError
      | Some classes \<Rightarrow>
          if list_all (\<lambda>i. i < length classes) y then Inr (map (nth classes) y)
          else Inl ValueError)"

text \<open>
  The target encoder as \<^verbatim>\<open>train\<close> fits it (line 150), on the fixed list of the two
  labels and not on the corpus.
\<close>

definition fitted_target_encoder :: LabelEncoder where
  "fitted_target_encoder = LabelEncoder_fit [''Not Eligible'', ''Eligible'']"

section \<open>The rule override layer\<close>

text \<open>
  One iteration of the loop of \<^verbatim>\<open>_apply_custom_rules\<close>: the new value of
  \<^verbatim>\<open>predictions[i]\<close>. The encoder is only consulted when a rule fires.
\<close>

definition custom_rule :: "LabelEncoder \<Rightarrow> nat \<Rightarrow> 'a applicant_scheme \<Rightarrow> error + nat" where
  "custom_rule target_encoder pred row =
     (if credit_score row < 500
         \<or> (employment_status row = ''Unemployed'' \<and> loan_type row = ''Home Loan'')
         \<or> (income row < 25000 \<and> loan_type row = ''Home Loan'')
      then map_sum id hd (LabelEncoder_transform target_encoder [''Not Eligible''])
      else if credit_score row > 800 \<and> income row > 150000
              \<and> employment_status row = ''Employed''
      then map_sum id hd (LabelEncoder_transform target_encoder [''Eligible''])
      else Inr pred)"

text \<open>
  The loop runs over \<^verbatim>\<open>zip(predictions, df.iterrows())\<close>, so it stops at the shorter
  of the two; the predictions past the last row stay as they are, and the first exception
  ends the call.
\<close>

fun apply_custom_rules ::
  "LabelEncoder \<Rightarrow> 'a applicant_scheme list \<Rightarrow> nat list \<Rightarrow> error + nat list" where
  "apply_custom_rules te (row # df) (pred # predictions) =
     (case custom_rule te pred row of
        Inl e \<Rightarrow> Inl e
      | Inr p \<Rightarrow> map_sum id ((#) p) (apply_custom_rules te df predictions))"
| "apply_custom_rules te [] predictions = Inr predictions"
| "apply_custom_rules te df [] = Inr []"

section \<open>The income ratio\<close>

definition typical_loan_amounts :: "string \<rightharpoonup> real" where
  "typical_loan_amounts = map_of
     [(''Home Loan'', 250000), (''Education Loan'', 50000), (''Car Loan'', 35000)]"

definition calculate_income_ratio :: "real \<Rightarrow> string \<Rightarrow> real" where
  "calculate_income_ratio inc lt =
     inc / (case typical_loan_amounts lt of None \<Rightarrow> 50000 | Some a \<Rightarrow> a)"

section \<open>The standard scaler\<close>

text \<open>
  \<^verbatim>\<open>sklearn.preprocessing.StandardScaler\<close> on a matrix given as its list of rows: the
  fitted state is the pair \<^verbatim>\<open>(mean_, scale_)\<close>, the mean and the population standard
  deviation of each column, a zero deviation being replaced by 1. Both \<^verbatim>\<open>fit\<close> and
  \<^verbatim>\<open>transform\<close> refuse a matrix with no row, \<^verbatim>\<open>transform\<close> refuses an unfitted
  scaler and a row of the wrong width.
\<close>

type_synonym StandardScaler = "(real list \<times> real list) option"

definition column_mean :: "real list \<Rightarrow> real" where
  "column_mean xs = sum_list xs / real (length xs)"

definition column_scale :: "real list \<Rightarrow> real" where
  "column_scale xs =
     (let m = column_mean xs;
          s = sqrt (sum_list (map (\<lambda>x. (x - m)\<^sup>2) xs) / real (length xs))
      in if s = 0 then 1 else s)"

definition StandardScaler_fit :: "real list list \<Rightarrow> error + StandardScaler" where
  "StandardScaler_fit X =
     (if X = [] then Inl ValueError
      else Inr (Some (map column_mean (transpose X), map column_scale (transpose X))))"

definition StandardScaler_transform ::
  "StandardScaler \<Rightarrow> real list list \<Rightarrow> error + real list list" where
  "StandardScaler_transform sc X =
     (case sc of
        None \<Rightarrow> Inl NotFittedError
      | Some (mean, scale) \<Rightarrow>
          if X = [] then Inl ValueError
          else if list_all (\<lambda>r. length r = length mean) X
          then Inr (map (\<lambda>r. map (\<lambda>(x, m, s). (x - m) / s) (zip r (zip mean scale))) X)
          else Inl ValueError)"

definition StandardScaler_fit_transform ::
  "real list list \<Rightarrow> error + real list list \<times> StandardScaler" where
  "StandardScaler_fit_transform X =
     (case StandardScaler_fit X of
        Inl e \<Rightarrow> Inl e
      | Inr sc \<Rightarrow> map_sum id (\<lambda>Z. (Z, sc)) (StandardScaler_transform sc X))"

section \<open>The pipeline object\<close>

text \<open>
  The random forest and the shuffle of \<^verbatim>\<open>train_test_split\<close> are library code that
  is not modelled: they are parameters, so every theorem holds for whatever they compute.
  \<open>'f\<close> is the state of a fitted forest; \<open>permutation n\<close> stands for the order in which
  \<^verbatim>\<open>RandomState(42)\<close> arranges \<open>n\<close> row numbers. Fitting and querying the forest
  return a value: the library refuses an empty or ill-shaped matrix, which the pipeline
  never hands it, and fits labels of a single class like any others.
\<close>

record features =
  f_income :: real
  f_credit_score :: real
  f_employment_status :: nat
  f_loan_type :: nat
  f_income_to_loan_ratio :: real

record 'f sklearn =
  rf_fit :: "features list \<Rightarrow> nat list \<Rightarrow> 'f"
  rf_predict :: "'f \<Rightarrow> features list \<Rightarrow> nat list"
  rf_predict_proba :: "'f \<Rightarrow> features list \<Rightarrow> real list list"
  permutation :: "nat \<Rightarrow> nat list"

text \<open>
  The four attributes that \<^verbatim>\<open>__init__\<close> sets. An estimator that was constructed and
  never fitted is \<open>None\<close>.
\<close>

record 'f LoanEligibilityModel =
  model :: "'f option"
  scaler :: StandardScaler
  label_encoders :: "string \<rightharpoonup> LabelEncoder"
  target_encoder :: LabelEncoder

definition LoanEligibilityModel_init :: "'f LoanEligibilityModel" where
  "LoanEligibilityModel_init =
     \<lparr>model = None, scaler = None, label_encoders = Map.empty, target_encoder = None\<rparr>"

text \<open>
  The body of the loop over the categorical columns in \<^verbatim>\<open>preprocess_data\<close>: when
  training, a new encoder is stored under the column and fitted on it; otherwise the stored
  encoder is looked up (\<^verbatim>\<open>KeyError\<close> when there is none) and applied.
\<close>

definition encode_column ::
  "bool \<Rightarrow> (string \<rightharpoonup> LabelEncoder) \<Rightarrow> string \<Rightarrow> string list
     \<Rightarrow> error + nat list \<times> (string \<rightharpoonup> LabelEncoder)" where
  "encode_column training encoders column values =
     (if training then
        (let enc = LabelEncoder_fit values
         in map_sum id (\<lambda>codes. (codes, encoders(column \<mapsto> enc)))
              (LabelEncoder_transform enc values))
      else
        (case encoders column of
           None \<Rightarrow> Inl KeyError
         | Some enc \<Rightarrow> map_sum id (\<lambda>codes. (codes, encoders))
              (LabelEncoder_transform enc values)))"

definition feature_rows :: "real list list \<Rightarrow> nat list \<Rightarrow> nat list \<Rightarrow> features list" where
  "feature_rows numerical emp lt =
     map (\<lambda>(num, e, l). \<lparr>f_income = num ! 0, f_credit_score = num ! 1,
                          f_employment_status = e, f_loan_type = l,
                          f_income_to_loan_ratio = num ! 2\<rparr>)
       (zip numerical (zip emp lt))"

text \<open>
  \<^verbatim>\<open>preprocess_data\<close> returns the processed frame, of which the callers keep the five
  feature columns, and leaves the encoders and the scaler it fitted in the object.
\<close>

definition preprocess_data ::
  "'f LoanEligibilityModel \<Rightarrow> 'a applicant_scheme list \<Rightarrow> bool
     \<Rightarrow> error + features list \<times> 'f LoanEligibilityModel" where
  "preprocess_data self df training =
     (let ratio = map (\<lambda>x. calculate_income_ratio (income x) (loan_type x)) df
      in case encode_column training (label_encoders self) ''employment_status''
                (map employment_status df) of
           Inl e \<Rightarrow> Inl e
         | Inr (emp, encoders1) \<Rightarrow>
      (case encode_column training encoders1 ''loan_type'' (map loan_type df) of
           Inl e \<Rightarrow> Inl e
         | Inr (lt, encoders2) \<Rightarrow>
      (let numerical = map (\<lambda>(x, r). [income x, real_of_int (credit_score x), r]) (zip df ratio)
       in case (if training then StandardScaler_fit_transform numerical
                else map_sum id (\<lambda>Z. (Z, scaler self))
                       (StandardScaler_transform (scaler self) numerical)) of
            Inl e \<Rightarrow> Inl e
          | Inr (scaled, sc) \<Rightarrow>
              Inr (feature_rows scaled emp lt,
                   self\<lparr>label_encoders := encoders2, scaler := sc\<rparr>))))"

text \<open>
  \<^verbatim>\<open>train_test_split(X, y, test_size=0.2, random_state=42)\<close>: the test set takes
  \<open>\<lceil>0.2 n\<rceil>\<close> of the \<open>n\<close> rows, the training set the rest, and an empty training set is
  a \<^verbatim>\<open>ValueError\<close>. The result is in the order \<^verbatim>\<open>X_train, X_test, y_train, y_test\<close>.
\<close>

definition train_test_split ::
  "(nat \<Rightarrow> nat list) \<Rightarrow> 'a list \<Rightarrow> 'b list
     \<Rightarrow> error + 'a list \<times> 'a list \<times> 'b list \<times> 'b list" where
  "train_test_split perm X y =
     (let n = length X;
          n_test = nat \<lceil>0.2 * real n\<rceil>;
          n_train = n - n_test
      in if length y \<noteq> n then Inl ValueError
         else if n_train = 0 then Inl ValueError
         else (let ind_test = take n_test (perm n);
                   ind_train = take n_train (drop n_test (perm n))
               in Inr (map (nth X) ind_train, map (nth X) ind_test,
                       map (nth y) ind_train, map (nth y) ind_test)))"

definition train ::
  "'f sklearn \<Rightarrow> 'f LoanEligibilityModel \<Rightarrow> labeled list
     \<Rightarrow> error + (features list \<times> nat list \<times> nat list) \<times> 'f LoanEligibilityModel" where
  "train lib self df =
     (case preprocess_data self df True of
        Inl e \<Rightarrow> Inl e
      | Inr (X, self1) \<Rightarrow>
     (let te = LabelEncoder_fit [''Not Eligible'', ''Eligible'']
      in case LabelEncoder_transform te (map eligibility df) of
           Inl e \<Rightarrow> Inl e
         | Inr y \<Rightarrow>
      (case train_test_split (permutation lib) X y of
           Inl e \<Rightarrow> Inl e
         | Inr (X_train, X_test, y_train, y_test) \<Rightarrow>
      (let fitted = rf_fit lib X_train y_train
       in Inr ((X_test, y_test, rf_predict lib fitted X_test),
               self1\<lparr>model := Some fitted, target_encoder := te\<rparr>)))))"

definition predict ::
  "'f sklearn \<Rightarrow> 'f LoanEligibilityModel \<Rightarrow> 'a applicant_scheme list
     \<Rightarrow> error + string list \<times> real list list" where
  "predict lib self df =
     (case preprocess_data self df False of
        Inl e \<Rightarrow> Inl e
      | Inr (X, _) \<Rightarrow>
     (case model self of
        None \<Rightarrow> Inl NotFittedError
      | Some fitted \<Rightarrow>
     (let predictions = rf_predict lib fitted X;
          prediction_proba = rf_predict_proba lib fitted X
      in case apply_custom_rules (target_encoder self) df predictions of
           Inl e \<Rightarrow> Inl e
         | Inr predictions' \<Rightarrow>
             map_sum id (\<lambda>prediction_labels. (prediction_labels, prediction_proba))
               (LabelEncoder_inverse_transform (target_encoder self) predictions'))))"

section \<open>Saving and loading\<close>

text \<open>
  \<^verbatim>\<open>joblib.dump\<close> writes the dictionary \<^verbatim>\<open>model_data\<close> under the path and
  \<^verbatim>\<open>joblib.load\<close> reads back what was written there; a path with no file is a
  \<^verbatim>\<open>FileNotFoundError\<close>. The file system is a map from paths to stored dictionaries.
\<close>

record 'f model_data =
  md_model :: "'f option"
  md_scaler :: StandardScaler
  md_label_encoders :: "string \<rightharpoonup> LabelEncoder"
  md_target_encoder :: LabelEncoder

type_synonym 'f files = "string \<rightharpoonup> 'f model_data"

definition save_model :: "'f LoanEligibilityModel \<Rightarrow> string \<Rightarrow> 'f files \<Rightarrow> 'f files" where
  "save_model self filepath fs =
     fs(filepath \<mapsto> \<lparr>md_model = model self, md_scaler = scaler self,
                      md_label_encoders = label_encoders self,
                      md_target_encoder = target_encoder self\<rparr>)"

definition load_model :: "string \<Rightarrow> 'f files \<Rightarrow> error + 'f LoanEligibilityModel" where
  "load_model filepath fs =
     (case fs filepath of
        None \<Rightarrow> Inl FileNotFoundError
      | Some md \<Rightarrow>
          (let loan_model = LoanEligibilityModel_init;
               loan_model = loan_model\<lparr>model := md_model md\<rparr>;
               loan_model = loan_model\<lparr>scaler := md_scaler md\<rparr>;
               loan_model = loan_model\<lparr>label_encoders := md_label_encoders md\<rparr>;
               loan_model = loan_model\<lparr>target_encoder := md_target_encoder md\<rparr>
           in Inr loan_model))"

section \<open>The generator of the training corpus\<close>

text \<open>
  numpy's global random generator is a state \<open>'g\<close> that every draw reads and advances.
  The samplers are library code and are parameters; \<open>seed\<close> is the state that
  \<^verbatim>\<open>np.random.seed\<close> installs.
\<close>

record 'g numpy_random =
  seed :: "nat \<Rightarrow> 'g"
  lognormal :: "real \<Rightarrow> real \<Rightarrow> nat \<Rightarrow> 'g \<Rightarrow> real list \<times> 'g"
  normal :: "real \<Rightarrow> real \<Rightarrow> nat \<Rightarrow> 'g \<Rightarrow> real list \<times> 'g"
  choice :: "string list \<Rightarrow> nat \<Rightarrow> real list \<Rightarrow> 'g \<Rightarrow> string list \<times> 'g"

definition clip :: "real \<Rightarrow> real \<Rightarrow> real \<Rightarrow> real" where
  "clip x lo hi = min (max x lo) hi"

text \<open>\<^verbatim>\<open>astype(int)\<close> drops the fractional part, towards zero.\<close>

definition astype_int :: "real \<Rightarrow> int" where
  "astype_int x = (if x \<ge> 0 then \<lfloor>x\<rfloor> else \<lceil>x\<rceil>)"

text \<open>\<^verbatim>\<open>df.apply(f, axis=1)\<close>: the rows in order, up to the first exception.\<close>

fun apply_rows :: "('a \<Rightarrow> error + 'b) \<Rightarrow> 'a list \<Rightarrow> error + 'b list" where
  "apply_rows f [] = Inr []"
| "apply_rows f (row # df) =
     (case f row of
        Inl e \<Rightarrow> Inl e
      | Inr v \<Rightarrow> map_sum id ((#) v) (apply_rows f df))"

text \<open>
  The \<^verbatim>\<open>DataFrame\<close> constructor refuses columns of different lengths with a
  \<^verbatim>\<open>ValueError\<close>.
\<close>

definition DataFrame ::
  "real list \<Rightarrow> int list \<Rightarrow> string list \<Rightarrow> string list \<Rightarrow> error + applicant list" where
  "DataFrame inc cs emp lt =
     (if length cs = length inc \<and> length emp = length inc \<and> length lt = length inc
      then Inr (map (\<lambda>(i, c, e, l). \<lparr>income = i, credit_score = c,
                                      employment_status = e, loan_type = l\<rparr>)
                  (zip inc (zip cs (zip emp lt))))
      else Inl ValueError)"

definition with_eligibility :: "applicant \<Rightarrow> string \<Rightarrow> labeled" where
  "with_eligibility row label =
     \<lparr>income = income row, credit_score = credit_score row,
      employment_status = employment_status row, loan_type = loan_type row,
      eligibility = label\<rparr>"

text \<open>
  \<^verbatim>\<open>generate_loan_data\<close> takes the generator state it finds and returns the frame (or
  the exception) with the state it leaves.
\<close>

definition generate_loan_data ::
  "'g numpy_random \<Rightarrow> nat \<Rightarrow> 'g \<Rightarrow> (error + labeled list) \<times> 'g" where
  "generate_loan_data np num_samples g0 =
     (let g = seed np 42;
          (inc, g) = lognormal np 11 0.5 num_samples g;
          inc = map (\<lambda>x. clip x 20000 500000) inc;
          (cs, g) = normal np 680 80 num_samples g;
          cs = map (\<lambda>x. astype_int (clip x 300 850)) cs;
          (emp, g) = choice np [''Employed'', ''Self-employed'', ''Unemployed'']
                       num_samples [0.75, 0.20, 0.05] g;
          (lt, g) = choice np [''Home Loan'', ''Education Loan'', ''Car Loan'']
                      num_samples [0.35, 0.25, 0.40] g
      in (case DataFrame inc cs emp lt of
            Inl e \<Rightarrow> Inl e
          | Inr df \<Rightarrow>
              map_sum id (\<lambda>labels. map (\<lambda>(row, l). with_eligibility row l) (zip df labels))
                (apply_rows determine_eligibility df),
          g))"

section \<open>A concrete run\<close>

text \<open>
  An instance of the library parameters on which the definitions can be run: a forest whose
  fitted state is empty and that answers the class \<open>k\<close> for every row, and a shuffle that
  leaves the rows in place.
\<close>

definition constant_forest :: "nat \<Rightarrow> unit sklearn" where
  "constant_forest k =
     \<lparr>rf_fit = (\<lambda>X y. ()), rf_predict = (\<lambda>f X. map (\<lambda>x. k) X),
      rf_predict_proba = (\<lambda>f X. map (\<lambda>x. [1 - real k, real k]) X),
      permutation = (\<lambda>n. [0..<n])\<rparr>"

text \<open>
  An instance of numpy's samplers: the generator state counts the draws made since the
  seed was installed; the two numeric draws read off the given lists, and the two choices
  pick the options at the given positions, the first choice (the third draw) from \<open>emps\<close>
  and the second from \<open>lts\<close>.
\<close>

definition listed_draws ::
  "real list \<Rightarrow> real list \<Rightarrow> nat list \<Rightarrow> nat list \<Rightarrow> nat numpy_random" where
  "listed_draws incs css emps lts =
     \<lparr>seed = (\<lambda>s. 0),
      lognormal = (\<lambda>mean sigma n g. (take n incs, Suc g)),
      normal = (\<lambda>loc scale n g. (take n css, Suc g)),
      choice = (\<lambda>options n p g.
                  (map (nth options) (take n (if g = 2 then emps else lts)), Suc g))\<rparr>"

text \<open>A corpus of two rows that carry the same label.\<close>

definition example_corpus :: "labeled list" where
  "example_corpus =
     [\<lparr>income = 60000, credit_score = 700, employment_status = ''Employed'',
       loan_type = ''Home Loan'', eligibility = ''Eligible''\<rparr>,
      \<lparr>income = 60000, credit_score = 700, employment_status = ''Employed'',
       loan_type = ''Home Loan'', eligibility = ''Eligible''\<rparr>]"

text \<open>The pipeline that training on \<open>example_corpus\<close> leaves (lemma \<open>example_train\<close>).\<close>

definition example_pipeline :: "unit LoanEligibilityModel" where
  "example_pipeline =
     \<lparr>model = Some (), scaler = Some ([60000, 700, 6 / 25], [1, 1, 1]),
      label_encoders = [''employment_status'' \<mapsto> Some [''Employed''],
                        ''loan_type'' \<mapsto> Some [''Home Loan'']],
      target_encoder = Some [''Eligible'', ''Not Eligible'']\<rparr>"

text \<open>
  Five draws for the generator: the first four rows meet in turn a rejection, the approval,
  a score above 1 and a score below 1; the income of the fifth is the double next above
  60000, for which the exact score exceeds 1 and the rounded one is 1.
\<close>

definition example_draws :: "nat numpy_random" where
  "example_draws =
     listed_draws [200000, 120000, 100000, 50000, 8246337208320001 / 137438953472]
       [600.7, 700.2, 640, 640.9, 700] [0, 0, 0, 0, 0] [0, 0, 0, 0, 0]"

text \<open>
  A forest whose fitted state is the list of labels it was trained on and that answers the
  first of them, and a corpus of two rows with the two labels.
\<close>

definition label_recording_forest :: "nat list sklearn" where
  "label_recording_forest =
     \<lparr>rf_fit = (\<lambda>X y. y), rf_predict = (\<lambda>f X. map (\<lambda>x. hd f) X),
      rf_predict_proba = (\<lambda>f X. map (\<lambda>x. [1 - real (hd f), real (hd f)]) X),
      permutation = (\<lambda>n. [0..<n])\<rparr>"

definition mixed_corpus :: "labeled list" where
  "mixed_corpus =
     [\<lparr>income = 60000, credit_score = 700, employment_status = ''Employed'',
       loan_type = ''Home Loan'', eligibility = ''Eligible''\<rparr>,
      \<lparr>income = 60000, credit_score = 700, employment_status = ''Employed'',
       loan_type = ''Home Loan'', eligibility = ''Not Eligible''\<rparr>]"

section \<open>Facts about the arithmetic\<close>

lemma pow2_pos: "pow2 e > 0"
  by (simp add: pow2_def)

lemma pow2_powr: "pow2 e = 2 powr real_of_int e"
  by (simp add: pow2_def powr_real_of_int inverse_eq_divide)

lemma floor_log2:
  assumes "pow2 k \<le> x" and "x < pow2 (k + 1)"
  shows "\<lfloor>log 2 x\<rfloor> = k"
proof -
  have "0 < x" using pow2_pos [of k] assms(1) by linarith
  moreover have "2 powr real_of_int k \<le> x \<and> x < 2 powr (real_of_int k + 1)"
    using assms by (simp add: pow2_powr)
  ultimately show ?thesis
    using floor_log_eq_powr_iff [of x 2 k] by simp
qed

lemma round_half_even_of_int: "round_half_even (real_of_int m) = m"
  by (simp add: round_half_even_def)

lemma round_half_even_eval:
  assumes "\<bar>r - real_of_int m\<bar> < 1 / 2 \<or> (\<bar>r - real_of_int m\<bar> = 1 / 2 \<and> even m)"
  shows "round_half_even r = m"
proof (cases "real_of_int m \<le> r")
  case True
  with assms have f: "\<lfloor>r\<rfloor> = m" by (auto simp: floor_eq_iff)
  show ?thesis using assms True by (auto simp: round_half_even_def f)
next
  case False
  with assms have f: "\<lfloor>r\<rfloor> = m - 1" by (auto simp: floor_eq_iff)
  show ?thesis using assms False by (auto simp: round_half_even_def f)
qed

lemma round_double_eval:
  assumes "pow2 k \<le> \<bar>x\<bar>" and "\<bar>x\<bar> < pow2 (k + 1)"
    and "round_half_even (x / pow2 (k - 52)) = m"
  shows "round_double x = real_of_int m * pow2 (k - 52)"
proof -
  have "x \<noteq> 0" using pow2_pos [of k] assms(1) by auto
  moreover have "\<lfloor>log 2 \<bar>x\<bar>\<rfloor> = k" using assms(1,2) by (rule floor_log2)
  ultimately show ?thesis using assms(3) by (simp add: round_double_def)
qed

lemma round_double_exact:
  assumes "\<bar>m\<bar> < 2 ^ 53"
  shows "round_double (real_of_int m / 2 ^ s) = real_of_int m / 2 ^ s"
proof (cases "m = 0")
  case True
  then show ?thesis by (simp add: round_double_def)
next
  case False
  let ?x = "real_of_int m / 2 ^ s"
  define e where "e = \<lfloor>log 2 \<bar>?x\<bar>\<rfloor>"
  have x0: "?x \<noteq> 0" using False by simp
  have "\<bar>real_of_int m\<bar> < 2 ^ 53"
    using assms by (metis of_int_abs of_int_less_numeral_power_cancel_iff)
  then have "\<bar>?x\<bar> < 2 ^ 53 / 2 ^ s"
    by (simp add: divide_strict_right_mono)
  also have "\<dots> = 2 powr (53 - real s)"
    by (simp add: powr_diff powr_realpow)
  finally have "log 2 \<bar>?x\<bar> < 53 - real s"
    using x0 by (simp add: log_less_iff)
  then have "e < 53 - int s" unfolding e_def by linarith
  then have le: "e - 52 \<le> - int s" by simp
  define k where "k = nat (52 - e)"
  have k: "e - 52 = - int k" "s \<le> k" using le by (simp_all add: k_def)
  have p: "pow2 (e - 52) = 1 / 2 ^ k"
    unfolding k(1) by (simp add: pow2_def)
  have "?x / pow2 (e - 52) = real_of_int m * 2 ^ k / 2 ^ s"
    by (simp add: p)
  also have "\<dots> = real_of_int m * 2 ^ (k - s)"
    using k(2) by (simp add: power_diff)
  also have "\<dots> = real_of_int (m * 2 ^ (k - s))" by simp
  finally have q: "round_half_even (?x / pow2 (e - 52)) = m * 2 ^ (k - s)"
    by (simp only: round_half_even_of_int)
  have "round_double ?x = real_of_int (round_half_even (?x / pow2 (e - 52))) * pow2 (e - 52)"
    unfolding round_double_def Let_def e_def using x0 by (rule if_not_P)
  also have "\<dots> = real_of_int (m * 2 ^ (k - s)) * pow2 (e - 52)"
    by (simp only: q)
  also have "\<dots> = real_of_int (m * 2 ^ (k - s)) * (1 / 2 ^ k)"
    by (simp only: p)
  also have "\<dots> = real_of_int m * 2 ^ (k - s) / 2 ^ k" by simp
  also have "\<dots> = real_of_int m / 2 ^ s"
    using k(2) by (simp add: power_diff field_simps)
  finally show ?thesis .
qed

lemma round_double_values:
  "round_double 1 = 1"
  "round_double (1 / 2) = 1 / 2"
  "round_double (3 / 2) = 3 / 2"
  "round_double 25000 = 25000"
  "round_double 30000 = 30000"
  "round_double 50000 = 50000"
  "round_double 60000 = 60000"
  "round_double 75000 = 75000"
  "round_double 120000 = 120000"
  using round_double_exact [of 1 0] round_double_exact [of 1 1] round_double_exact [of 3 1]
    round_double_exact [of 25000 0] round_double_exact [of 30000 0]
    round_double_exact [of 50000 0] round_double_exact [of 60000 0]
    round_double_exact [of 75000 0] round_double_exact [of 120000 0]
  by simp_all

lemma round_double_0: "round_double 0 = 0"
  by (simp add: round_double_def)

text \<open>
  Four roundings that are not exact, the last one a tie: they are the steps of the score of
  the row with income \<open>60000 + 2\<^sup>-\<^sup>3\<^sup>7\<close> and credit score 700.
\<close>

lemma round_double_three_tenths:
  "round_double (3 / 10) = 5404319552844595 / 18014398509481984"
proof -
  have "round_half_even (3 / 10 / pow2 (- 2 - 52)) = 5404319552844595"
    by (rule round_half_even_eval) (simp add: pow2_def)
  from round_double_eval [of "- 2" "3 / 10", OF _ _ this]
  show ?thesis by (simp add: pow2_def)
qed

lemma rounding_step_quotient:
  "round_double (1374389534720001 / 6871947673600000)
     = 7205759403792799 / 36028797018963968"
proof -
  have "round_half_even (1374389534720001 / 6871947673600000 / pow2 (- 3 - 52))
          = 7205759403792799"
    by (rule round_half_even_eval) (simp add: pow2_def)
  from round_double_eval [of "- 3" "1374389534720001 / 6871947673600000", OF _ _ this]
  show ?thesis by (simp add: pow2_def)
qed

lemma rounding_step_sum:
  "round_double (18014398509481989 / 36028797018963968)
     = 4503599627370497 / 9007199254740992"
proof -
  have "round_half_even (18014398509481989 / 36028797018963968 / pow2 (- 1 - 52))
          = 4503599627370497"
    by (rule round_half_even_eval) (simp add: pow2_def)
  from round_double_eval [of "- 1" "18014398509481989 / 36028797018963968", OF _ _ this]
  show ?thesis by (simp add: pow2_def)
qed

lemma rounding_step_tie:
  "round_double (9007199254740993 / 9007199254740992) = 1"
proof -
  have "round_half_even (9007199254740993 / 9007199254740992 / pow2 (0 - 52))
          = 4503599627370496"
    by (rule round_half_even_eval) (simp add: pow2_def)
  from round_double_eval [of 0 "9007199254740993 / 9007199254740992", OF _ _ this]
  show ?thesis by (simp add: pow2_def)
qed

lemma rounding_step_difference:
  "round_double (1374389534720001 / 137438953472) = 1374389534720001 / 137438953472"
  using round_double_exact [of 1374389534720001 37] by simp

text \<open>The score of that row is exactly 1, so its label is Not Eligible.\<close>

lemma example_rounded_score:
  "determine_eligibility
     \<lparr>income = 8246337208320001 / 137438953472, credit_score = 700,
      employment_status = ''Employed'', loan_type = ''Home Loan''\<rparr> = Inr ''Not Eligible''"
  by (simp add: determine_eligibility_def loan_criteria_def borderline_score_def Let_def
        round_double_values round_double_three_tenths rounding_step_difference
        rounding_step_quotient rounding_step_sum rounding_step_tie)

section \<open>Facts about the labeling policy\<close>

lemma loan_criteria_cases:
  "loan_criteria lt = Some c \<Longrightarrow>
     (lt = ''Home Loan'' \<and> c = \<lparr>min_income = 50000, preferred_income = 80000,
                                   min_credit = 640, preferred_credit = 700\<rparr>)
   \<or> (lt = ''Education Loan'' \<and> c = \<lparr>min_income = 30000, preferred_income = 50000,
                                        min_credit = 620, preferred_credit = 680\<rparr>)
   \<or> (lt = ''Car Loan'' \<and> c = \<lparr>min_income = 25000, preferred_income = 40000,
                                  min_credit = 600, preferred_credit = 660\<rparr>)"
  by (auto simp: loan_criteria_def split: if_splits)

lemma preferred_income_threshold:
  assumes "loan_criteria lt = Some c"
  shows "round_double (real_of_int (preferred_income c) * 1.5)
           = 1.5 * real_of_int (preferred_income c)"
  using loan_criteria_cases [OF assms] by (auto simp: round_double_values)

lemma determine_eligibility_label:
  assumes "loan_criteria (loan_type row) = Some c"
  shows "determine_eligibility row = Inr
       (if credit_score row < min_credit c
           \<or> (employment_status row = ''Unemployed'' \<and> loan_type row \<noteq> ''Education Loan'')
           \<or> income row < real_of_int (min_income c)
        then ''Not Eligible''
        else if credit_score row \<ge> preferred_credit c
                \<and> income row \<ge> 1.5 * real_of_int (preferred_income c)
                \<and> employment_status row = ''Employed''
        then ''Eligible''
        else if borderline_score c row > 1
        then ''Eligible'' else ''Not Eligible'')"
  unfolding determine_eligibility_def assms option.case preferred_income_threshold [OF assms]
  by simp

lemma determine_eligibility_known:
  "determine_eligibility row = Inr l \<Longrightarrow> \<exists>c. loan_criteria (loan_type row) = Some c"
  by (auto simp: determine_eligibility_def split: option.splits)

lemma determine_eligibility_with_eligibility:
  "determine_eligibility (with_eligibility row l) = determine_eligibility row"
  by (cases "loan_criteria (loan_type row)")
     (simp_all add: determine_eligibility_def with_eligibility_def borderline_score_def
        Let_def)

lemma apply_rows_nth:
  "apply_rows f df = Inr labels \<Longrightarrow>
     length labels = length df \<and> (\<forall>i<length df. f (df ! i) = Inr (labels ! i))"
proof (induction df arbitrary: labels)
  case Nil
  then show ?case by simp
next
  case (Cons row df)
  from Cons.prems obtain v rest where v: "f row = Inr v"
    and rest: "apply_rows f df = Inr rest" and l: "labels = v # rest"
    by (auto split: sum.splits simp: map_sum_def)
  from Cons.IH [OF rest] show ?case
    using v l by (auto simp: nth_Cons split: nat.splits)
qed

lemma generated_row:
  assumes "fst (generate_loan_data np n g) = Inr df" and "r \<in> set df"
  shows "\<exists>row. r = with_eligibility row (eligibility r)
               \<and> determine_eligibility row = Inr (eligibility r)"
proof -
  from assms(1) obtain frame labels where
    labels: "apply_rows determine_eligibility frame = Inr labels"
    and df: "df = map (\<lambda>(row, l). with_eligibility row l) (zip frame labels)"
    by (auto simp: generate_loan_data_def Let_def map_sum_def
             split: prod.splits sum.splits)
  from apply_rows_nth [OF labels] have len: "length labels = length frame"
    and nth: "\<And>i. i < length frame \<Longrightarrow> determine_eligibility (frame ! i) = Inr (labels ! i)"
    by auto
  from assms(2) df obtain i where i: "i < length frame"
    and r: "r = with_eligibility (frame ! i) (labels ! i)"
    using len by (auto simp: in_set_conv_nth)
  have "eligibility r = labels ! i" using r by (simp add: with_eligibility_def)
  then show ?thesis using r nth [OF i] by auto
qed

text \<open>The generator run on the five draws.\<close>

lemma example_generate5:
  "generate_loan_data example_draws 5 g =
   (Inr [\<lparr>income = 200000, credit_score = 600, employment_status = ''Employed'',
           loan_type = ''Home Loan'', eligibility = ''Not Eligible''\<rparr>,
         \<lparr>income = 120000, credit_score = 700, employment_status = ''Employed'',
           loan_type = ''Home Loan'', eligibility = ''Eligible''\<rparr>,
         \<lparr>income = 100000, credit_score = 640, employment_status = ''Employed'',
           loan_type = ''Home Loan'', eligibility = ''Eligible''\<rparr>,
         \<lparr>income = 50000, credit_score = 640, employment_status = ''Employed'',
           loan_type = ''Home Loan'', eligibility = ''Not Eligible''\<rparr>,
         \<lparr>income = 8246337208320001 / 137438953472, credit_score = 700,
           employment_status = ''Employed'',
           loan_type = ''Home Loan'', eligibility = ''Not Eligible''\<rparr>], 4)"
  by (simp add: generate_loan_data_def example_draws_def listed_draws_def clip_def
        astype_int_def
        DataFrame_def determine_eligibility_def loan_criteria_def borderline_score_def
        with_eligibility_def round_double_values round_double_0 Let_def
        round_double_three_tenths rounding_step_difference
        rounding_step_quotient rounding_step_sum rounding_step_tie)

text \<open>
  Claim C1. Every row of a frame that the generator returns carries the label that the
  policy gives to its features, with the thresholds of its loan type, by the rules in the
  order reject, accept, score: Not Eligible when the credit score is below \<open>min_credit\<close>,
  or the applicant is unemployed and the loan is not an education loan, or the income is
  below \<open>min_income\<close>; otherwise Eligible when the credit score reaches
  \<open>preferred_credit\<close>, the income reaches 1.5 times \<open>preferred_income\<close> and the applicant
  is employed; otherwise Eligible exactly when the score exceeds 1, the score being
  \<open>(credit_score - min_credit) / 200 + (income - min_income) / min_income\<close> plus the
  employment bonus (0.5 employed, 0.3 self-employed, nothing otherwise), computed as the
  source computes it, in doubles and in this order.
\<close>

theorem generated_rows_follow_policy:
  assumes "fst (generate_loan_data np n g) = Inr df" and "r \<in> set df"
  shows "\<exists>c. loan_criteria (loan_type r) = Some c
     \<and> determine_eligibility r = Inr (eligibility r)
     \<and> eligibility r =
       (if credit_score r < min_credit c
           \<or> (employment_status r = ''Unemployed'' \<and> loan_type r \<noteq> ''Education Loan'')
           \<or> income r < real_of_int (min_income c)
        then ''Not Eligible''
        else if credit_score r \<ge> preferred_credit c
                \<and> income r \<ge> 1.5 * real_of_int (preferred_income c)
                \<and> employment_status r = ''Employed''
        then ''Eligible''
        else if (let a = round_double (real_of_int (credit_score r - min_credit c) / 200);
                     b = round_double (round_double (income r - real_of_int (min_income c))
                                       / real_of_int (min_income c));
                     s = round_double (a + b)
                 in if employment_status r = ''Employed'' then round_double (s + 0.5)
                    else if employment_status r = ''Self-employed''
                      then round_double (s + round_double 0.3)
                    else s) > 1
        then ''Eligible'' else ''Not Eligible'')"
proof -
  from generated_row [OF assms] obtain row where
    r: "r = with_eligibility row (eligibility r)"
    and d: "determine_eligibility row = Inr (eligibility r)"
    by blast
  have dr: "determine_eligibility r = Inr (eligibility r)"
    using d determine_eligibility_with_eligibility [of row "eligibility r"] r by simp
  then obtain c where c: "loan_criteria (loan_type r) = Some c"
    using determine_eligibility_known by blast
  show ?thesis
    using determine_eligibility_label [OF c] dr c
    by (auto simp: borderline_score_def Let_def)
qed

theorem generated_rows_follow_policy_witness:
  "fst (generate_loan_data example_draws 5 0) =
    Inr [\<lparr>income = 200000, credit_score = 600, employment_status = ''Employed'',
           loan_type = ''Home Loan'', eligibility = ''Not Eligible''\<rparr>,
         \<lparr>income = 120000, credit_score = 700, employment_status = ''Employed'',
           loan_type = ''Home Loan'', eligibility = ''Eligible''\<rparr>,
         \<lparr>income = 100000, credit_score = 640, employment_status = ''Employed'',
           loan_type = ''Home Loan'', eligibility = ''Eligible''\<rparr>,
         \<lparr>income = 50000, credit_score = 640, employment_status = ''Employed'',
           loan_type = ''Home Loan'', eligibility = ''Not Eligible''\<rparr>,
         \<lparr>income = 8246337208320001 / 137438953472, credit_score = 700,
           employment_status = ''Employed'',
           loan_type = ''Home Loan'', eligibility = ''Not Eligible''\<rparr>]
 \<and> determine_eligibility
      \<lparr>income = 100000, credit_score = 640, employment_status = ''Employed'',
       loan_type = ''Home Loan'', eligibility = ''Eligible''\<rparr> = Inr ''Eligible''
 \<and> determine_eligibility
      \<lparr>income = 8246337208320001 / 137438953472, credit_score = 700,
       employment_status = ''Employed'',
       loan_type = ''Home Loan'', eligibility = ''Not Eligible''\<rparr> = Inr ''Not Eligible''"
  using generated_rows_follow_policy [where np = example_draws and n = 5 and g = 0
              and r = "\<lparr>income = 100000, credit_score = 640,
                         employment_status = ''Employed'',
                         loan_type = ''Home Loan'', eligibility = ''Eligible''\<rparr>"]
        generated_rows_follow_policy [where np = example_draws and n = 5 and g = 0
              and r = "\<lparr>income = 8246337208320001 / 137438953472, credit_score = 700,
                         employment_status = ''Employed'',
                         loan_type = ''Home Loan'', eligibility = ''Not Eligible''\<rparr>"]
        example_generate5 [of 0]
  by auto

text \<open>
  Claim C9. For every loan type and an employed applicant, the row whose income equals the
  type's \<open>min_income\<close> and whose credit score equals its \<open>min_credit\<close> is not rejected:
  its label is the one the score gives, and the score there is 0.5. The comparisons of
  the rejections are strict: a credit score equal to \<open>min_credit\<close> with any income from
  \<open>min_income\<close> up, and an income equal to \<open>min_income\<close> with any credit score from
  \<open>min_credit\<close> up, leave the label to the score, which makes the row Eligible at twice
  the minimal income and at 200 points above the minimal credit score.
\<close>

theorem boundary_row_is_scored:
  assumes "loan_criteria (loan_type row) = Some c"
    and "employment_status row = ''Employed''"
  shows "(income row = real_of_int (min_income c) \<and> credit_score row = min_credit c
            \<longrightarrow> determine_eligibility row =
                  Inr (if borderline_score c row > 1 then ''Eligible'' else ''Not Eligible'')
              \<and> borderline_score c row = 0.5
              \<and> determine_eligibility row = Inr ''Not Eligible'')
       \<and> (credit_score row = min_credit c \<and> income row \<ge> real_of_int (min_income c)
            \<longrightarrow> determine_eligibility row =
                  Inr (if borderline_score c row > 1 then ''Eligible'' else ''Not Eligible''))
       \<and> (income row = real_of_int (min_income c) \<and> credit_score row \<ge> min_credit c
            \<longrightarrow> determine_eligibility row =
                  Inr (if borderline_score c row > 1 then ''Eligible'' else ''Not Eligible''))
       \<and> (credit_score row = min_credit c \<and> income row = 2 * real_of_int (min_income c)
            \<longrightarrow> determine_eligibility row = Inr ''Eligible'')
       \<and> (income row = real_of_int (min_income c) \<and> credit_score row = min_credit c + 200
            \<longrightarrow> determine_eligibility row = Inr ''Eligible'')"
proof -
  note l = determine_eligibility_label [OF assms(1)]
  have t: "min_credit c < preferred_credit c"
    "real_of_int (min_income c) < 1.5 * real_of_int (preferred_income c)"
    using loan_criteria_cases [OF assms(1)] by auto
  have b: "borderline_score c row = 0.5"
    if "income row = real_of_int (min_income c)" "credit_score row = min_credit c"
    using that assms(2) by (simp add: borderline_score_def round_double_0 round_double_values)
  have hi: "borderline_score c row = 1.5"
    if "credit_score row = min_credit c" "income row = 2 * real_of_int (min_income c)"
    using that assms(2) loan_criteria_cases [OF assms(1)]
    by (auto simp: borderline_score_def round_double_0 round_double_values)
  have hc: "borderline_score c row = 1.5"
    if "income row = real_of_int (min_income c)" "credit_score row = min_credit c + 200"
    using that assms(2) loan_criteria_cases [OF assms(1)]
    by (auto simp: borderline_score_def round_double_0 round_double_values)
  have m: "0 < real_of_int (min_income c)"
    using loan_criteria_cases [OF assms(1)] by auto
  show ?thesis
  proof (intro conjI impI)
    assume "income row = real_of_int (min_income c) \<and> credit_score row = min_credit c"
    then show "determine_eligibility row =
        Inr (if borderline_score c row > 1 then ''Eligible'' else ''Not Eligible'')"
      and "borderline_score c row = 0.5"
      and "determine_eligibility row = Inr ''Not Eligible''"
      using l t assms(2) b by auto
  next
    assume "credit_score row = min_credit c \<and> income row \<ge> real_of_int (min_income c)"
    then show "determine_eligibility row =
        Inr (if borderline_score c row > 1 then ''Eligible'' else ''Not Eligible'')"
      using l t assms(2) by auto
  next
    assume "income row = real_of_int (min_income c) \<and> credit_score row \<ge> min_credit c"
    then show "determine_eligibility row =
        Inr (if borderline_score c row > 1 then ''Eligible'' else ''Not Eligible'')"
      using l t assms(2) by auto
  next
    assume a: "credit_score row = min_credit c
               \<and> income row = 2 * real_of_int (min_income c)"
    then show "determine_eligibility row = Inr ''Eligible''"
      using l t m assms(2) hi by auto
  next
    assume a: "income row = real_of_int (min_income c)
               \<and> credit_score row = min_credit c + 200"
    then show "determine_eligibility row = Inr ''Eligible''"
      using l t assms(2) hc by auto
  qed
qed

theorem boundary_row_is_scored_witness:
  "determine_eligibility \<lparr>income = 50000, credit_score = 640,
     employment_status = ''Employed'', loan_type = ''Home Loan''\<rparr> = Inr ''Not Eligible''
 \<and> borderline_score \<lparr>min_income = 50000, preferred_income = 80000, min_credit = 640,
       preferred_credit = 700\<rparr>
     \<lparr>income = 50000, credit_score = 640,
      employment_status = ''Employed'', loan_type = ''Home Loan''\<rparr> = 0.5
 \<and> determine_eligibility \<lparr>income = 100000, credit_score = 640,
     employment_status = ''Employed'', loan_type = ''Home Loan''\<rparr> = Inr ''Eligible''
 \<and> determine_eligibility \<lparr>income = 50000, credit_score = 840,
     employment_status = ''Employed'', loan_type = ''Home Loan''\<rparr> = Inr ''Eligible''
 \<and> determine_eligibility \<lparr>income = 30000, credit_score = 620,
     employment_status = ''Employed'', loan_type = ''Education Loan''\<rparr> = Inr ''Not Eligible''
 \<and> determine_eligibility \<lparr>income = 25000, credit_score = 600,
     employment_status = ''Employed'', loan_type = ''Car Loan''\<rparr> = Inr ''Not Eligible''"
  using boundary_row_is_scored [of "\<lparr>income = 50000, credit_score = 640,
          employment_status = ''Employed'', loan_type = ''Home Loan''\<rparr>"
          "\<lparr>min_income = 50000, preferred_income = 80000, min_credit = 640,
            preferred_credit = 700\<rparr>"]
        boundary_row_is_scored [of "\<lparr>income = 100000, credit_score = 640,
          employment_status = ''Employed'', loan_type = ''Home Loan''\<rparr>"
          "\<lparr>min_income = 50000, preferred_income = 80000, min_credit = 640,
            preferred_credit = 700\<rparr>"]
        boundary_row_is_scored [of "\<lparr>income = 50000, credit_score = 840,
          employment_status = ''Employed'', loan_type = ''Home Loan''\<rparr>"
          "\<lparr>min_income = 50000, preferred_income = 80000, min_credit = 640,
            preferred_credit = 700\<rparr>"]
        boundary_row_is_scored [of "\<lparr>income = 30000, credit_score = 620,
          employment_status = ''Employed'', loan_type = ''Education Loan''\<rparr>"
          "\<lparr>min_income = 30000, preferred_income = 50000, min_credit = 620,
            preferred_credit = 680\<rparr>"]
        boundary_row_is_scored [of "\<lparr>income = 25000, credit_score = 600,
          employment_status = ''Employed'', loan_type = ''Car Loan''\<rparr>"
          "\<lparr>min_income = 25000, preferred_income = 40000, min_credit = 600,
            preferred_credit = 660\<rparr>"]
  by (auto simp: loan_criteria_def split: if_splits)

section \<open>Facts about the income ratio\<close>

text \<open>
  Claim C10. The income ratio divides the income by 250000 for a home loan, by 50000 for
  an education loan and by 35000 for a car loan; for every other loan type it returns the
  income divided by the default 50000, and no input makes it raise.
\<close>

theorem income_ratio_divisors:
  "calculate_income_ratio inc ''Home Loan'' = inc / 250000
 \<and> calculate_income_ratio inc ''Education Loan'' = inc / 50000
 \<and> calculate_income_ratio inc ''Car Loan'' = inc / 35000
 \<and> (lt \<notin> {''Home Loan'', ''Education Loan'', ''Car Loan''} \<longrightarrow>
      calculate_income_ratio inc lt = inc / 50000)"
  by (simp add: calculate_income_ratio_def typical_loan_amounts_def)

theorem income_ratio_divisors_witness:
  "''Personal Loan'' \<notin> {''Home Loan'', ''Education Loan'', ''Car Loan''}
 \<and> calculate_income_ratio 60000 ''Personal Loan'' = 6 / 5
 \<and> calculate_income_ratio 60000 ''Home Loan'' = 6 / 25"
  using income_ratio_divisors [of 60000 "''Personal Loan''"] by simp

section \<open>Facts about the label encoder\<close>

lemma fitted_target_encoder_classes:
  "fitted_target_encoder = Some [''Eligible'', ''Not Eligible'']"
  by (simp add: fitted_target_encoder_def LabelEncoder_fit_def)

lemma inverse_transform_fitted:
  "LabelEncoder_inverse_transform fitted_target_encoder [0] = Inr [''Eligible'']"
  "LabelEncoder_inverse_transform fitted_target_encoder [1] = Inr [''Not Eligible'']"
  by (simp_all add: fitted_target_encoder_classes LabelEncoder_inverse_transform_def)

lemma index_of_None: "index_of cs y = None \<longleftrightarrow> y \<notin> set cs"
  by (induction cs) auto

lemma those_map_None: "those (map f ys) = None \<longleftrightarrow> (\<exists>y\<in>set ys. f y = None)"
  by (induction ys) (auto split: option.splits)

lemma those_map_Some_length: "those (map f ys) = Some zs \<Longrightarrow> length zs = length ys"
  by (induction ys arbitrary: zs) (auto split: option.splits)

lemma transform_unseen:
  assumes "\<exists>y\<in>set ys. y \<notin> set cs"
  shows "LabelEncoder_transform (Some cs) ys = Inl ValueError"
proof -
  have "those (map (index_of cs) ys) = None"
    using assms by (simp add: those_map_None index_of_None)
  then show ?thesis by (simp add: LabelEncoder_transform_def)
qed

lemma transform_seen:
  assumes "set ys \<subseteq> set cs"
  shows "\<exists>codes. LabelEncoder_transform (Some cs) ys = Inr codes \<and> length codes = length ys"
proof -
  have "those (map (index_of cs) ys) \<noteq> None"
    using assms by (auto simp: those_map_None index_of_None)
  then obtain codes where c: "those (map (index_of cs) ys) = Some codes" by auto
  then have "length codes = length ys" by (rule those_map_Some_length)
  with c show ?thesis by (simp add: LabelEncoder_transform_def)
qed

section \<open>Facts about the rule override layer\<close>

lemma custom_rule_fitted:
  "custom_rule fitted_target_encoder pred row = Inr
     (if credit_score row < 500
         \<or> (employment_status row = ''Unemployed'' \<and> loan_type row = ''Home Loan'')
         \<or> (income row < 25000 \<and> loan_type row = ''Home Loan'') then 1
      else if credit_score row > 800 \<and> income row > 150000
              \<and> employment_status row = ''Employed'' then 0
      else pred)"
  by (simp add: custom_rule_def fitted_target_encoder_classes LabelEncoder_transform_def)

text \<open>What the loop leaves at each position of the array it was given.\<close>

lemma apply_custom_rules_nth:
  "apply_custom_rules te df preds = Inr out \<Longrightarrow>
     length out = length preds \<and>
     (\<forall>i<length preds. if i < length df then custom_rule te (preds ! i) (df ! i) = Inr (out ! i)
                        else out ! i = preds ! i)"
proof (induction te df preds arbitrary: out rule: apply_custom_rules.induct)
  case (1 te row df pred predictions)
  from "1.prems" obtain p rest where p: "custom_rule te pred row = Inr p"
    and rest: "apply_custom_rules te df predictions = Inr rest" and out: "out = p # rest"
    by (auto split: sum.splits simp: map_sum_def)
  from "1.IH" [OF p rest] have ih: "length rest = length predictions"
    "\<And>i. i < length predictions \<Longrightarrow>
       (if i < length df then custom_rule te (predictions ! i) (df ! i) = Inr (rest ! i)
        else rest ! i = predictions ! i)"
    by auto
  show ?case
  proof (intro conjI allI impI)
    show "length out = length (pred # predictions)" using ih(1) out by simp
  next
    fix i assume i: "i < length (pred # predictions)"
    show "if i < length (row # df)
          then custom_rule te ((pred # predictions) ! i) ((row # df) ! i) = Inr (out ! i)
          else out ! i = (pred # predictions) ! i"
    proof (cases i)
      case 0
      then show ?thesis using p out by simp
    next
      case (Suc j)
      then show ?thesis using ih(2) [of j] i out by simp
    qed
  qed
next
  case (2 te predictions)
  then show ?case by simp
next
  case (3 te v va)
  then show ?case by simp
qed

text \<open>
  The label that \<^verbatim>\<open>predict\<close> returns at a position is the reading, by the target
  encoder, of what the override loop left there.
\<close>

lemma predict_label_nth:
  assumes "predict lib self df = Inr (labels, proba)"
    and "target_encoder self = fitted_target_encoder"
    and "i < length labels" and "i < length df"
  shows "\<exists>p q. custom_rule fitted_target_encoder p (df ! i) = Inr q
           \<and> q < 2 \<and> labels ! i = [''Eligible'', ''Not Eligible''] ! q"
proof -
  from assms(1,2) obtain preds out where
    out: "apply_custom_rules fitted_target_encoder df preds = Inr out"
    and inv: "LabelEncoder_inverse_transform fitted_target_encoder out = Inr labels"
    by (auto simp: predict_def Let_def map_sum_def split: sum.splits option.splits prod.splits)
  from inv have all: "list_all (\<lambda>i. i < length [''Eligible'', ''Not Eligible'']) out"
    and labels: "labels = map (nth [''Eligible'', ''Not Eligible'']) out"
    by (auto simp: LabelEncoder_inverse_transform_def fitted_target_encoder_classes
             split: if_splits)
  from labels assms(3) have i: "i < length out" by simp
  from apply_custom_rules_nth [OF out] i assms(4)
  have "custom_rule fitted_target_encoder (preds ! i) (df ! i) = Inr (out ! i)"
    by (auto split: if_splits)
  moreover from all i have "out ! i < 2" by (auto simp: list_all_length)
  moreover from labels i have "labels ! i = [''Eligible'', ''Not Eligible''] ! (out ! i)" by simp
  ultimately show ?thesis by blast
qed

section \<open>Facts about training\<close>

lemma encode_column_training:
  "\<exists>codes. encode_column True encs col vals = Inr (codes, encs(col \<mapsto> LabelEncoder_fit vals))
      \<and> length codes = length vals"
  using transform_seen [of vals "sort (remdups vals)"]
  by (auto simp: encode_column_def LabelEncoder_fit_def Let_def)

lemma transpose_length3:
  assumes "X \<noteq> []" and "\<forall>r\<in>set X. length r = 3"
  shows "length (transpose X) = 3"
proof -
  have "foldr (\<lambda>xs. max (length xs)) X 0 = 3"
    using assms by (induction X rule: list_nonempty_induct) auto
  then show ?thesis by (simp add: length_transpose)
qed

lemma scaler_fit_transform_ok:
  assumes "X \<noteq> []" and "\<forall>r\<in>set X. length r = 3"
  shows "\<exists>Z sc. StandardScaler_fit_transform X = Inr (Z, sc) \<and> length Z = length X"
  using assms
  by (simp add: StandardScaler_fit_transform_def StandardScaler_fit_def
        StandardScaler_transform_def transpose_length3 list_all_iff)

lemma preprocess_training_ok:
  assumes "df \<noteq> []"
  shows "\<exists>X self1. preprocess_data self df True = Inr (X, self1) \<and> length X = length df"
proof -
  obtain emp where emp: "encode_column True (label_encoders self) ''employment_status''
      (map employment_status df) =
        Inr (emp, (label_encoders self)(''employment_status'' \<mapsto>
               LabelEncoder_fit (map employment_status df)))"
    and lemp: "length emp = length df"
    using encode_column_training [of "label_encoders self" "''employment_status''"
                                     "map employment_status df"] by auto
  obtain lt where lt: "encode_column True ((label_encoders self)(''employment_status'' \<mapsto>
               LabelEncoder_fit (map employment_status df))) ''loan_type''
      (map loan_type df) =
        Inr (lt, ((label_encoders self)(''employment_status'' \<mapsto>
               LabelEncoder_fit (map employment_status df)))(''loan_type'' \<mapsto>
               LabelEncoder_fit (map loan_type df)))"
    and llt: "length lt = length df"
    using encode_column_training [of _ "''loan_type''" "map loan_type df"] by auto
  let ?num = "map (\<lambda>(x, r). [income x, real_of_int (credit_score x), r])
                (zip df (map (\<lambda>x. calculate_income_ratio (income x) (loan_type x)) df))"
  have "?num \<noteq> []" using assms by simp
  moreover have "\<forall>r\<in>set ?num. length r = 3" by auto
  ultimately obtain Z sc where Z: "StandardScaler_fit_transform ?num = Inr (Z, sc)"
    and lZ: "length Z = length ?num"
    using scaler_fit_transform_ok by blast
  show ?thesis
    by (simp add: preprocess_data_def Let_def emp lt Z feature_rows_def lemp llt lZ)
qed

lemma split_ok:
  assumes "length y = length X" and "2 \<le> length X"
  shows "\<exists>a b c d. train_test_split perm X y = Inr (a, b, c, d)"
proof -
  have "0.2 * real (length X) \<le> real_of_int (int (length X) - 1)"
    using assms(2) by simp
  then have "\<lceil>0.2 * real (length X)\<rceil> \<le> int (length X) - 1"
    by (rule ceiling_le)
  then have "length X - nat \<lceil>0.2 * real (length X)\<rceil> \<noteq> 0"
    using assms(2) by linarith
  then show ?thesis
    using assms(1) by (simp add: train_test_split_def Let_def)
qed

lemma ceil_one_fifth: "\<lceil>(1::real) / 5\<rceil> = 1"
  by (rule ceiling_unique) simp_all

lemma ceil_two_fifths: "\<lceil>(2::real) / 5\<rceil> = 1"
  by (rule ceiling_unique) simp_all

lemma split_one:
  assumes "length X = 1"
  shows "train_test_split perm X y = Inl ValueError"
  using assms by (simp add: train_test_split_def Let_def ceil_one_fifth)

lemma target_transform_ok:
  assumes "\<forall>r\<in>set df. eligibility r \<in> {''Eligible'', ''Not Eligible''}"
  shows "\<exists>y. LabelEncoder_transform (LabelEncoder_fit [''Not Eligible'', ''Eligible''])
                (map eligibility df) = Inr y \<and> length y = length df"
proof -
  have "set (map eligibility df) \<subseteq> set [''Eligible'', ''Not Eligible'']"
    using assms by auto
  from transform_seen [OF this] show ?thesis
    by (simp add: LabelEncoder_fit_def)
qed

lemma train_ok:
  assumes "2 \<le> length df"
    and "\<forall>r\<in>set df. eligibility r \<in> {''Eligible'', ''Not Eligible''}"
  shows "\<exists>res self'. train lib self df = Inr (res, self') \<and> model self' \<noteq> None"
proof -
  from assms(1) have "df \<noteq> []" by auto
  then obtain X self1 where p: "preprocess_data self df True = Inr (X, self1)"
    and lX: "length X = length df"
    using preprocess_training_ok by blast
  obtain y where y: "LabelEncoder_transform (LabelEncoder_fit [''Not Eligible'', ''Eligible''])
                (map eligibility df) = Inr y" and ly: "length y = length df"
    using target_transform_ok [OF assms(2)] by blast
  have "\<exists>a b c d. train_test_split (permutation lib) X y = Inr (a, b, c, d)"
    by (rule split_ok) (simp_all add: lX ly assms(1))
  then obtain a b c d where s: "train_test_split (permutation lib) X y = Inr (a, b, c, d)"
    by blast
  show ?thesis by (simp add: train_def p y s Let_def)
qed

lemma train_one:
  assumes "length df = 1"
    and "\<forall>r\<in>set df. eligibility r \<in> {''Eligible'', ''Not Eligible''}"
  shows "train lib self df = Inl ValueError"
proof -
  from assms(1) have "df \<noteq> []" by auto
  then obtain X self1 where p: "preprocess_data self df True = Inr (X, self1)"
    and lX: "length X = length df"
    using preprocess_training_ok by blast
  obtain y where y: "LabelEncoder_transform (LabelEncoder_fit [''Not Eligible'', ''Eligible''])
                (map eligibility df) = Inr y"
    using target_transform_ok [OF assms(2)] by blast
  have s: "train_test_split (permutation lib) X y = Inl ValueError"
    using split_one lX assms(1) by simp
  show ?thesis by (simp add: train_def p y s Let_def)
qed

lemma train_target_encoder:
  "train lib self df = Inr (res, self') \<Longrightarrow> target_encoder self' = fitted_target_encoder"
  by (auto simp: train_def Let_def fitted_target_encoder_def split: sum.splits prod.splits)

text \<open>Training on \<open>example_corpus\<close>, step by step, from a new object.\<close>

lemma example_train:
  "train (constant_forest 0) LoanEligibilityModel_init example_corpus =
     Inr (([\<lparr>f_income = 0, f_credit_score = 0, f_employment_status = 0, f_loan_type = 0,
              f_income_to_loan_ratio = 0\<rparr>], [0], [0]),
          example_pipeline)"
  by (simp add: train_def preprocess_data_def encode_column_def example_corpus_def
        example_pipeline_def
        constant_forest_def LabelEncoder_fit_def LabelEncoder_transform_def
        StandardScaler_fit_transform_def StandardScaler_fit_def
        StandardScaler_transform_def feature_rows_def column_mean_def column_scale_def
        calculate_income_ratio_def typical_loan_amounts_def train_test_split_def
        LoanEligibilityModel_init_def Let_def ceil_two_fifths)

lemma example_train_one_row:
  "train (constant_forest 0) LoanEligibilityModel_init
     [\<lparr>income = 60000, credit_score = 700, employment_status = ''Employed'',
       loan_type = ''Home Loan'', eligibility = ''Eligible''\<rparr>] = Inl ValueError"
  by (simp add: train_def preprocess_data_def encode_column_def
        constant_forest_def LabelEncoder_fit_def LabelEncoder_transform_def
        StandardScaler_fit_transform_def StandardScaler_fit_def
        StandardScaler_transform_def feature_rows_def column_mean_def column_scale_def
        calculate_income_ratio_def typical_loan_amounts_def train_test_split_def
        LoanEligibilityModel_init_def Let_def ceil_one_fifth)

text \<open>Two predictions of the trained example pipeline, each against the forest's answer.\<close>

lemma example_predict_low_credit:
  "predict (constant_forest 0) example_pipeline
     [\<lparr>income = 60000, credit_score = 450, employment_status = ''Employed'',
       loan_type = ''Home Loan''\<rparr>] = Inr ([''Not Eligible''], [[1, 0]])"
  by (simp add: predict_def preprocess_data_def encode_column_def example_pipeline_def
        constant_forest_def LabelEncoder_transform_def
        StandardScaler_transform_def feature_rows_def custom_rule_def
        calculate_income_ratio_def typical_loan_amounts_def
        LabelEncoder_inverse_transform_def Let_def)

lemma example_predict_exceptional:
  "predict (constant_forest 1) example_pipeline
     [\<lparr>income = 200000, credit_score = 820, employment_status = ''Employed'',
       loan_type = ''Home Loan''\<rparr>] = Inr ([''Eligible''], [[0, 1]])"
  by (simp add: predict_def preprocess_data_def encode_column_def example_pipeline_def
        constant_forest_def LabelEncoder_transform_def
        StandardScaler_transform_def feature_rows_def custom_rule_def
        calculate_income_ratio_def typical_loan_amounts_def
        LabelEncoder_inverse_transform_def Let_def)

section \<open>Facts about unseen categories\<close>

lemma preprocess_unseen:
  assumes e: "label_encoders self ''employment_status'' = Some (Some ce)"
    and l: "label_encoders self ''loan_type'' = Some (Some cl)"
    and u: "\<exists>x\<in>set df. employment_status x \<notin> set ce \<or> loan_type x \<notin> set cl"
  shows "preprocess_data self df False = Inl ValueError"
proof (cases "\<exists>y\<in>set (map employment_status df). y \<notin> set ce")
  case True
  then have "LabelEncoder_transform (Some ce) (map employment_status df) = Inl ValueError"
    by (rule transform_unseen)
  then show ?thesis by (simp add: preprocess_data_def encode_column_def e Let_def)
next
  case False
  then have "set (map employment_status df) \<subseteq> set ce" by auto
  then obtain codes where
    c: "LabelEncoder_transform (Some ce) (map employment_status df) = Inr codes"
    using transform_seen by blast
  from False u have "\<exists>y\<in>set (map loan_type df). y \<notin> set cl" by auto
  then have "LabelEncoder_transform (Some cl) (map loan_type df) = Inl ValueError"
    by (rule transform_unseen)
  with c show ?thesis by (simp add: preprocess_data_def encode_column_def e l Let_def)
qed

section \<open>Facts about the override loop and the classifier's answer\<close>

lemma apply_custom_rules_fitted_total:
  "\<exists>out. apply_custom_rules fitted_target_encoder df preds = Inr out"
  by (induction fitted_target_encoder df preds rule: apply_custom_rules.induct)
     (auto simp: custom_rule_fitted)

lemma apply_custom_rules_fitted_nth:
  "\<exists>out. apply_custom_rules fitted_target_encoder df preds = Inr out
      \<and> length out = length preds
      \<and> (\<forall>j<length preds. out ! j =
           (if j < length df then
              (if credit_score (df ! j) < 500
                  \<or> (employment_status (df ! j) = ''Unemployed''
                      \<and> loan_type (df ! j) = ''Home Loan'')
                  \<or> (income (df ! j) < 25000 \<and> loan_type (df ! j) = ''Home Loan'') then 1
               else if credit_score (df ! j) > 800 \<and> income (df ! j) > 150000
                       \<and> employment_status (df ! j) = ''Employed'' then 0
               else preds ! j)
            else preds ! j))"
proof -
  obtain out where out: "apply_custom_rules fitted_target_encoder df preds = Inr out"
    using apply_custom_rules_fitted_total by blast
  from apply_custom_rules_nth [OF out] show ?thesis
    using out by (auto simp: custom_rule_fitted)
qed

lemma predict_classifier_label:
  assumes "predict lib self df = Inr (labels, proba)"
    and "target_encoder self = fitted_target_encoder"
    and "preprocess_data self df False = Inr (X, self1)"
    and "model self = Some fitted"
    and "i < length labels" and "i < length df"
  shows "length labels = length (rf_predict lib fitted X)
       \<and> proba = rf_predict_proba lib fitted X
       \<and> custom_rule fitted_target_encoder (rf_predict lib fitted X ! i) (df ! i)
           = Inr (if labels ! i = ''Eligible'' then 0 else 1)
       \<and> labels ! i \<in> {''Eligible'', ''Not Eligible''}"
proof -
  let ?preds = "rf_predict lib fitted X"
  from assms(1-4) obtain out where
    out: "apply_custom_rules fitted_target_encoder df ?preds = Inr out"
    and inv: "LabelEncoder_inverse_transform fitted_target_encoder out = Inr labels"
    and proba: "proba = rf_predict_proba lib fitted X"
    by (auto simp: predict_def Let_def map_sum_def split: sum.splits)
  from inv have all: "list_all (\<lambda>i. i < length [''Eligible'', ''Not Eligible'']) out"
    and labels: "labels = map (nth [''Eligible'', ''Not Eligible'']) out"
    by (auto simp: LabelEncoder_inverse_transform_def fitted_target_encoder_classes
             split: if_splits)
  from apply_custom_rules_nth [OF out] have len: "length out = length ?preds"
    and nth: "\<And>j. j < length ?preds \<Longrightarrow> j < length df \<Longrightarrow>
                custom_rule fitted_target_encoder (?preds ! j) (df ! j) = Inr (out ! j)"
    by (auto split: if_splits)
  from labels assms(5) have i: "i < length out" by simp
  from all i have "out ! i < 2" by (auto simp: list_all_length)
  then have "out ! i = 0 \<or> out ! i = 1" by auto
  moreover have "labels ! i = [''Eligible'', ''Not Eligible''] ! (out ! i)"
    using labels i by simp
  ultimately show ?thesis
    using nth [of i] i len assms(6) labels proba by auto
qed

lemma example_preprocess_pair:
  "preprocess_data example_pipeline
     [\<lparr>income = 200000, credit_score = 820, employment_status = ''Employed'',
       loan_type = ''Home Loan''\<rparr>,
      \<lparr>income = 60000, credit_score = 700, employment_status = ''Employed'',
       loan_type = ''Home Loan''\<rparr>] False =
   Inr ([\<lparr>f_income = 140000, f_credit_score = 120, f_employment_status = 0,
            f_loan_type = 0, f_income_to_loan_ratio = 14 / 25\<rparr>,
         \<lparr>f_income = 0, f_credit_score = 0, f_employment_status = 0,
            f_loan_type = 0, f_income_to_loan_ratio = 0\<rparr>], example_pipeline)"
  by (simp add: preprocess_data_def encode_column_def example_pipeline_def
        LabelEncoder_transform_def StandardScaler_transform_def feature_rows_def
        calculate_income_ratio_def typical_loan_amounts_def Let_def)

lemma example_predict_pair:
  "predict (constant_forest 1) example_pipeline
     [\<lparr>income = 200000, credit_score = 820, employment_status = ''Employed'',
       loan_type = ''Home Loan''\<rparr>,
      \<lparr>income = 60000, credit_score = 700, employment_status = ''Employed'',
       loan_type = ''Home Loan''\<rparr>] =
   Inr ([''Eligible'', ''Not Eligible''], [[0, 1], [0, 1]])"
  by (simp add: predict_def preprocess_data_def encode_column_def example_pipeline_def
        constant_forest_def LabelEncoder_transform_def
        StandardScaler_transform_def feature_rows_def custom_rule_def
        calculate_income_ratio_def typical_loan_amounts_def
        LabelEncoder_inverse_transform_def Let_def)

lemma example_rules_pair:
  "apply_custom_rules fitted_target_encoder
     [\<lparr>income = 200000, credit_score = 820, employment_status = ''Employed'',
       loan_type = ''Home Loan''\<rparr>,
      \<lparr>income = 60000, credit_score = 700, employment_status = ''Employed'',
       loan_type = ''Home Loan''\<rparr>] [1, 1, 1] = Inr [0, 1, 1]"
  by (simp add: custom_rule_fitted)

lemma example_pipeline_fields:
  "target_encoder example_pipeline = fitted_target_encoder"
  "model example_pipeline = Some ()"
  by (simp_all add: example_pipeline_def fitted_target_encoder_classes)

section \<open>The claims about the pipeline\<close>

text \<open>
  Claim C2 fails on the code. Line 150 fits the target encoder on the list that names
  Not Eligible first, under the comment that it defines the mapping explicitly, but the
  encoder sorts its classes: Not Eligible gets the index 1 and Eligible the index 0.
  Training on a corpus with one row of each label hands the forest the label 1 for the
  Not Eligible row and keeps 0 as the test label of the Eligible row.
\<close>

theorem target_encoder_indices_are_sorted:
  "LabelEncoder_transform fitted_target_encoder [''Not Eligible'', ''Eligible''] = Inr [1, 0]
   \<and> train label_recording_forest LoanEligibilityModel_init mixed_corpus =
     Inr (([\<lparr>f_income = 0, f_credit_score = 0, f_employment_status = 0, f_loan_type = 0,
              f_income_to_loan_ratio = 0\<rparr>], [0], [1]),
          \<lparr>model = Some [1], scaler = Some ([60000, 700, 6 / 25], [1, 1, 1]),
           label_encoders = [''employment_status'' \<mapsto> Some [''Employed''],
                             ''loan_type'' \<mapsto> Some [''Home Loan'']],
           target_encoder = Some [''Eligible'', ''Not Eligible'']\<rparr>)"
  by (simp add: train_def preprocess_data_def encode_column_def mixed_corpus_def
        label_recording_forest_def LabelEncoder_fit_def LabelEncoder_transform_def
        StandardScaler_fit_transform_def StandardScaler_fit_def
        StandardScaler_transform_def feature_rows_def column_mean_def column_scale_def
        calculate_income_ratio_def typical_loan_amounts_def train_test_split_def
        LoanEligibilityModel_init_def Let_def ceil_two_fifths
        fitted_target_encoder_classes)

text \<open>
  Claim C3. With the target encoder as training fits it, a row with a credit score below
  500, or an unemployed applicant for a home loan, or an income below 25000 for a home
  loan, gets the index that reads Not Eligible, whatever index the classifier predicted;
  so does every row with credit score 450 and loan type Home Loan, for any income and
  employment status. In a prediction that returns, the label at such a row is Not Eligible.
\<close>

theorem override_forces_not_eligible:
  assumes "credit_score row < 500
         \<or> (employment_status row = ''Unemployed'' \<and> loan_type row = ''Home Loan'')
         \<or> (income row < 25000 \<and> loan_type row = ''Home Loan'')"
  shows "custom_rule fitted_target_encoder pred row = Inr 1
       \<and> LabelEncoder_inverse_transform fitted_target_encoder [1] = Inr [''Not Eligible'']
       \<and> custom_rule fitted_target_encoder pred
            \<lparr>income = inc, credit_score = 450, employment_status = emp,
             loan_type = ''Home Loan''\<rparr> = Inr 1
       \<and> (predict lib self df = Inr (labels, proba)
            \<and> target_encoder self = fitted_target_encoder
            \<and> i < length labels \<and> i < length df \<and> df ! i = row
          \<longrightarrow> labels ! i = ''Not Eligible'')"
proof (intro conjI impI)
  show "custom_rule fitted_target_encoder pred row = Inr 1"
    using assms by (simp add: custom_rule_fitted)
  show "LabelEncoder_inverse_transform fitted_target_encoder [1] = Inr [''Not Eligible'']"
    by (rule inverse_transform_fitted)
  show "custom_rule fitted_target_encoder pred
          \<lparr>income = inc, credit_score = 450, employment_status = emp,
           loan_type = ''Home Loan''\<rparr> = Inr 1"
    by (simp add: custom_rule_fitted)
next
  assume a: "predict lib self df = Inr (labels, proba)
            \<and> target_encoder self = fitted_target_encoder
            \<and> i < length labels \<and> i < length df \<and> df ! i = row"
  then obtain p q where "custom_rule fitted_target_encoder p (df ! i) = Inr q"
    and "labels ! i = [''Eligible'', ''Not Eligible''] ! q"
    using predict_label_nth [of lib self df labels proba i] by blast
  moreover have "custom_rule fitted_target_encoder p (df ! i) = Inr 1"
    using assms a by (simp add: custom_rule_fitted)
  ultimately show "labels ! i = ''Not Eligible''" by simp
qed

theorem override_forces_not_eligible_witness:
  "custom_rule fitted_target_encoder 0
     \<lparr>income = 60000, credit_score = 450, employment_status = ''Employed'',
      loan_type = ''Home Loan''\<rparr> = Inr 1
   \<and> predict (constant_forest 0) example_pipeline
     [\<lparr>income = 60000, credit_score = 450, employment_status = ''Employed'',
       loan_type = ''Home Loan''\<rparr>] = Inr ([''Not Eligible''], [[1, 0]])
   \<and> rf_predict (constant_forest 0) ()
       [\<lparr>f_income = 0, f_credit_score = - 250, f_employment_status = 0, f_loan_type = 0,
         f_income_to_loan_ratio = 0\<rparr>] = [0]
   \<and> [''Not Eligible''] ! 0 = ''Not Eligible''"
  using override_forces_not_eligible
          [of "\<lparr>income = 60000, credit_score = 450, employment_status = ''Employed'',
                loan_type = ''Home Loan''\<rparr>" 0 60000 "''Employed''"
              "constant_forest 0" example_pipeline
              "[\<lparr>income = 60000, credit_score = 450, employment_status = ''Employed'',
                 loan_type = ''Home Loan''\<rparr>]" "[''Not Eligible'']" "[[1, 0]]" 0]
        example_predict_low_credit
  by (simp add: example_pipeline_def constant_forest_def)

text \<open>
  Claim C4. With the target encoder as training fits it, the rejection is tested first: a
  row that meets it gets the index of Not Eligible. A row that does not meet it and has a
  credit score above 800, an income above 150000 and an employed applicant gets the index
  that reads Eligible, whatever the classifier predicted, and in a prediction that returns
  its label is Eligible; so does every row with credit score 820, income 200000 and
  employment status Employed, for any loan type. A row that meets neither condition keeps
  the classifier's index. The loop over the frame returns, position by position, 1 at a
  rejected row, 0 at an approved one and the classifier's index everywhere else, and in a
  prediction that returns the label of a row that meets neither condition is the reading
  of the index that the classifier answered for it.
\<close>

theorem override_forces_eligible:
  "(\<not> (credit_score row < 500
         \<or> (employment_status row = ''Unemployed'' \<and> loan_type row = ''Home Loan'')
         \<or> (income row < 25000 \<and> loan_type row = ''Home Loan''))
      \<and> credit_score row > 800 \<and> income row > 150000 \<and> employment_status row = ''Employed''
     \<longrightarrow> custom_rule fitted_target_encoder pred row = Inr 0
         \<and> (predict lib self df = Inr (labels, proba)
              \<and> target_encoder self = fitted_target_encoder
              \<and> i < length labels \<and> i < length df \<and> df ! i = row
            \<longrightarrow> labels ! i = ''Eligible''))
 \<and> LabelEncoder_inverse_transform fitted_target_encoder [0] = Inr [''Eligible'']
 \<and> custom_rule fitted_target_encoder pred
      \<lparr>income = 200000, credit_score = 820, employment_status = ''Employed'',
       loan_type = lt\<rparr> = Inr 0
 \<and> (credit_score row < 500
         \<or> (employment_status row = ''Unemployed'' \<and> loan_type row = ''Home Loan'')
         \<or> (income row < 25000 \<and> loan_type row = ''Home Loan'')
     \<longrightarrow> custom_rule fitted_target_encoder pred row = Inr 1)
 \<and> (\<not> (credit_score row < 500
         \<or> (employment_status row = ''Unemployed'' \<and> loan_type row = ''Home Loan'')
         \<or> (income row < 25000 \<and> loan_type row = ''Home Loan''))
      \<and> \<not> (credit_score row > 800 \<and> income row > 150000
             \<and> employment_status row = ''Employed'')
     \<longrightarrow> custom_rule fitted_target_encoder pred row = Inr pred)
 \<and> (\<exists>out. apply_custom_rules fitted_target_encoder df preds = Inr out
      \<and> length out = length preds
      \<and> (\<forall>j<length preds. out ! j =
           (if j < length df then
              (if credit_score (df ! j) < 500
                  \<or> (employment_status (df ! j) = ''Unemployed''
                      \<and> loan_type (df ! j) = ''Home Loan'')
                  \<or> (income (df ! j) < 25000 \<and> loan_type (df ! j) = ''Home Loan'') then 1
               else if credit_score (df ! j) > 800 \<and> income (df ! j) > 150000
                       \<and> employment_status (df ! j) = ''Employed'' then 0
               else preds ! j)
            else preds ! j)))
 \<and> (predict lib self df = Inr (labels, proba)
      \<and> target_encoder self = fitted_target_encoder
      \<and> preprocess_data self df False = Inr (X, self')
      \<and> model self = Some fitted
      \<and> i < length labels \<and> i < length df
      \<and> \<not> (credit_score (df ! i) < 500
         \<or> (employment_status (df ! i) = ''Unemployed'' \<and> loan_type (df ! i) = ''Home Loan'')
         \<or> (income (df ! i) < 25000 \<and> loan_type (df ! i) = ''Home Loan''))
      \<and> \<not> (credit_score (df ! i) > 800 \<and> income (df ! i) > 150000
             \<and> employment_status (df ! i) = ''Employed'')
     \<longrightarrow> LabelEncoder_inverse_transform fitted_target_encoder
           [rf_predict lib fitted X ! i] = Inr [labels ! i])"
proof -
  have e: "labels ! i = ''Eligible''"
    if a: "predict lib self df = Inr (labels, proba)"
      "target_encoder self = fitted_target_encoder"
      "i < length labels" "i < length df" "df ! i = row"
    and r: "\<not> (credit_score row < 500
         \<or> (employment_status row = ''Unemployed'' \<and> loan_type row = ''Home Loan'')
         \<or> (income row < 25000 \<and> loan_type row = ''Home Loan''))"
      "credit_score row > 800 \<and> income row > 150000 \<and> employment_status row = ''Employed''"
  proof -
    obtain p q where "custom_rule fitted_target_encoder p (df ! i) = Inr q"
      and "labels ! i = [''Eligible'', ''Not Eligible''] ! q"
      using predict_label_nth [OF a(1-4)] by blast
    moreover have "custom_rule fitted_target_encoder p (df ! i) = Inr 0"
      using r a(5) by (simp add: custom_rule_fitted)
    ultimately show ?thesis by simp
  qed
  have s: "LabelEncoder_inverse_transform fitted_target_encoder
             [rf_predict lib fitted X ! i] = Inr [labels ! i]"
    if a: "predict lib self df = Inr (labels, proba)"
      "target_encoder self = fitted_target_encoder"
      "preprocess_data self df False = Inr (X, self')"
      "model self = Some fitted"
      "i < length labels" "i < length df"
    and r: "\<not> (credit_score (df ! i) < 500
         \<or> (employment_status (df ! i) = ''Unemployed'' \<and> loan_type (df ! i) = ''Home Loan'')
         \<or> (income (df ! i) < 25000 \<and> loan_type (df ! i) = ''Home Loan''))"
      "\<not> (credit_score (df ! i) > 800 \<and> income (df ! i) > 150000
             \<and> employment_status (df ! i) = ''Employed'')"
  proof -
    from predict_classifier_label [OF a]
    have c: "custom_rule fitted_target_encoder (rf_predict lib fitted X ! i) (df ! i)
           = Inr (if labels ! i = ''Eligible'' then 0 else 1)"
      and l: "labels ! i \<in> {''Eligible'', ''Not Eligible''}"
      by simp_all
    have "custom_rule fitted_target_encoder (rf_predict lib fitted X ! i) (df ! i)
           = Inr (rf_predict lib fitted X ! i)"
      using r by (auto simp: custom_rule_fitted)
    with c have "rf_predict lib fitted X ! i = (if labels ! i = ''Eligible'' then 0 else 1)"
      by simp
    then show ?thesis
      using l by (auto simp: LabelEncoder_inverse_transform_def
                    fitted_target_encoder_classes)
  qed
  show ?thesis
    using e s apply_custom_rules_fitted_nth [of df preds]
    by (simp add: custom_rule_fitted inverse_transform_fitted)
qed

theorem override_forces_eligible_witness:
  "predict (constant_forest 1) example_pipeline
     [\<lparr>income = 200000, credit_score = 820, employment_status = ''Employed'',
       loan_type = ''Home Loan''\<rparr>,
      \<lparr>income = 60000, credit_score = 700, employment_status = ''Employed'',
       loan_type = ''Home Loan''\<rparr>] =
     Inr ([''Eligible'', ''Not Eligible''], [[0, 1], [0, 1]])
   \<and> rf_predict (constant_forest 1) ()
       [\<lparr>f_income = 140000, f_credit_score = 120, f_employment_status = 0,
          f_loan_type = 0, f_income_to_loan_ratio = 14 / 25\<rparr>,
        \<lparr>f_income = 0, f_credit_score = 0, f_employment_status = 0,
          f_loan_type = 0, f_income_to_loan_ratio = 0\<rparr>] = [1, 1]
   \<and> LabelEncoder_inverse_transform fitted_target_encoder
       [rf_predict (constant_forest 1) ()
          [\<lparr>f_income = 140000, f_credit_score = 120, f_employment_status = 0,
             f_loan_type = 0, f_income_to_loan_ratio = 14 / 25\<rparr>,
           \<lparr>f_income = 0, f_credit_score = 0, f_employment_status = 0,
             f_loan_type = 0, f_income_to_loan_ratio = 0\<rparr>] ! 1]
       = Inr [[''Eligible'', ''Not Eligible''] ! 1]
   \<and> apply_custom_rules fitted_target_encoder
     [\<lparr>income = 200000, credit_score = 820, employment_status = ''Employed'',
       loan_type = ''Home Loan''\<rparr>,
      \<lparr>income = 60000, credit_score = 700, employment_status = ''Employed'',
       loan_type = ''Home Loan''\<rparr>] [1, 1, 1] = Inr [0, 1, 1]
   \<and> custom_rule fitted_target_encoder 1
     \<lparr>income = 200000, credit_score = 820, employment_status = ''Employed'',
      loan_type = ''Home Loan''\<rparr> = Inr 0
   \<and> custom_rule fitted_target_encoder 0
     \<lparr>income = 200000, credit_score = 450, employment_status = ''Employed'',
      loan_type = ''Car Loan''\<rparr> = Inr 1
   \<and> custom_rule fitted_target_encoder 1
     \<lparr>income = 60000, credit_score = 700, employment_status = ''Employed'',
      loan_type = ''Car Loan''\<rparr> = Inr 1
   \<and> custom_rule fitted_target_encoder 0
     \<lparr>income = 60000, credit_score = 700, employment_status = ''Employed'',
      loan_type = ''Car Loan''\<rparr> = Inr 0"
proof (intro conjI)
  show "predict (constant_forest 1) example_pipeline
     [\<lparr>income = 200000, credit_score = 820, employment_status = ''Employed'',
       loan_type = ''Home Loan''\<rparr>,
      \<lparr>income = 60000, credit_score = 700, employment_status = ''Employed'',
       loan_type = ''Home Loan''\<rparr>] =
     Inr ([''Eligible'', ''Not Eligible''], [[0, 1], [0, 1]])"
    by (rule example_predict_pair)
  show "rf_predict (constant_forest 1) ()
       [\<lparr>f_income = 140000, f_credit_score = 120, f_employment_status = 0,
          f_loan_type = 0, f_income_to_loan_ratio = 14 / 25\<rparr>,
        \<lparr>f_income = 0, f_credit_score = 0, f_employment_status = 0,
          f_loan_type = 0, f_income_to_loan_ratio = 0\<rparr>] = [1, 1]"
    by (simp add: constant_forest_def)
  show "LabelEncoder_inverse_transform fitted_target_encoder
       [rf_predict (constant_forest 1) ()
          [\<lparr>f_income = 140000, f_credit_score = 120, f_employment_status = 0,
             f_loan_type = 0, f_income_to_loan_ratio = 14 / 25\<rparr>,
           \<lparr>f_income = 0, f_credit_score = 0, f_employment_status = 0,
             f_loan_type = 0, f_income_to_loan_ratio = 0\<rparr>] ! 1]
       = Inr [[''Eligible'', ''Not Eligible''] ! 1]"
    by (rule override_forces_eligible [where lib = "constant_forest 1" and self = example_pipeline
              and df = "[\<lparr>income = 200000, credit_score = 820,
                           employment_status = ''Employed'', loan_type = ''Home Loan''\<rparr>,
                         \<lparr>income = 60000, credit_score = 700,
                           employment_status = ''Employed'', loan_type = ''Home Loan''\<rparr>]"
              and labels = "[''Eligible'', ''Not Eligible'']" and proba = "[[0, 1], [0, 1]]"
              and i = 1 and self' = example_pipeline and fitted = "()",
            THEN conjunct2, THEN conjunct2, THEN conjunct2, THEN conjunct2,
            THEN conjunct2, THEN conjunct2, THEN mp])
       (insert example_predict_pair example_preprocess_pair,
        simp add: example_pipeline_fields)
  show "apply_custom_rules fitted_target_encoder
     [\<lparr>income = 200000, credit_score = 820, employment_status = ''Employed'',
       loan_type = ''Home Loan''\<rparr>,
      \<lparr>income = 60000, credit_score = 700, employment_status = ''Employed'',
       loan_type = ''Home Loan''\<rparr>] [1, 1, 1] = Inr [0, 1, 1]"
    by (rule example_rules_pair)
  show "custom_rule fitted_target_encoder 1
     \<lparr>income = 200000, credit_score = 820, employment_status = ''Employed'',
      loan_type = ''Home Loan''\<rparr> = Inr 0"
    by (rule override_forces_eligible [where row = "\<lparr>income = 200000, credit_score = 820,
                employment_status = ''Employed'', loan_type = ''Home Loan''\<rparr>"
              and pred = 1, THEN conjunct1, THEN mp, THEN conjunct1]) simp
  show "custom_rule fitted_target_encoder 0
     \<lparr>income = 200000, credit_score = 450, employment_status = ''Employed'',
      loan_type = ''Car Loan''\<rparr> = Inr 1"
    by (rule override_forces_eligible [where row = "\<lparr>income = 200000, credit_score = 450,
                employment_status = ''Employed'', loan_type = ''Car Loan''\<rparr>"
              and pred = 0, THEN conjunct2, THEN conjunct2, THEN conjunct2,
            THEN conjunct1, THEN mp]) simp
  show "custom_rule fitted_target_encoder 1
     \<lparr>income = 60000, credit_score = 700, employment_status = ''Employed'',
      loan_type = ''Car Loan''\<rparr> = Inr 1"
    by (rule override_forces_eligible [where row = "\<lparr>income = 60000, credit_score = 700,
                employment_status = ''Employed'', loan_type = ''Car Loan''\<rparr>"
              and pred = 1, THEN conjunct2, THEN conjunct2, THEN conjunct2,
            THEN conjunct2, THEN conjunct1, THEN mp]) simp
  show "custom_rule fitted_target_encoder 0
     \<lparr>income = 60000, credit_score = 700, employment_status = ''Employed'',
      loan_type = ''Car Loan''\<rparr> = Inr 0"
    by (rule override_forces_eligible [where row = "\<lparr>income = 60000, credit_score = 700,
                employment_status = ''Employed'', loan_type = ''Car Loan''\<rparr>"
              and pred = 0, THEN conjunct2, THEN conjunct2, THEN conjunct2,
            THEN conjunct2, THEN conjunct1, THEN mp]) simp
qed

text \<open>
  Claim C5. The generator installs the seed 42 before it draws, so the frame it returns
  does not depend on the state in which it finds numpy's generator: two calls with the
  same sample count, one after the other or from any two states, return the same rows
  with the same labels (or the same exception).
\<close>

theorem generate_loan_data_deterministic:
  "generate_loan_data np n g' = generate_loan_data np n g
 \<and> fst (generate_loan_data np n (snd (generate_loan_data np n g)))
     = fst (generate_loan_data np n g)"
  by (simp add: generate_loan_data_def)

text \<open>
  Claim C6, as the code has it. When both categorical encoders are fitted and some row of
  the input carries an employment status or a loan type that is not among the classes of
  its encoder, the preprocessing at inference time raises the encoder's
  \<^verbatim>\<open>ValueError\<close>, and so does \<^verbatim>\<open>predict\<close>: the unseen category is never given a
  code. The exception is the library's own; the code has no error type for it.
\<close>

theorem unseen_category_raises:
  assumes "label_encoders self ''employment_status'' = Some (Some ce)"
    and "label_encoders self ''loan_type'' = Some (Some cl)"
    and "\<exists>x\<in>set df. employment_status x \<notin> set ce \<or> loan_type x \<notin> set cl"
  shows "preprocess_data self df False = Inl ValueError
       \<and> predict lib self df = Inl ValueError
       \<and> exception_name ValueError = ''ValueError''"
  using preprocess_unseen [OF assms] by (simp add: predict_def)

theorem unseen_category_raises_witness:
  "label_encoders example_pipeline ''employment_status'' = Some (Some [''Employed''])
   \<and> label_encoders example_pipeline ''loan_type'' = Some (Some [''Home Loan''])
   \<and> ''Car Loan'' \<notin> set [''Home Loan'']
   \<and> preprocess_data example_pipeline
       [\<lparr>income = 60000, credit_score = 700, employment_status = ''Employed'',
         loan_type = ''Car Loan''\<rparr>] False = Inl ValueError
   \<and> predict (constant_forest 0) example_pipeline
       [\<lparr>income = 60000, credit_score = 700, employment_status = ''Employed'',
         loan_type = ''Car Loan''\<rparr>] = Inl ValueError"
  using unseen_category_raises
          [of example_pipeline "[''Employed'']" "[''Home Loan'']"
              "[\<lparr>income = 60000, credit_score = 700, employment_status = ''Employed'',
                 loan_type = ''Car Loan''\<rparr>]" "constant_forest 0"]
  by (simp add: example_pipeline_def)

text \<open>
  A typed error for the unseen category does not come: on the trained example pipeline a
  row with a loan type that no training row had stops the preprocessing with
  \<^verbatim>\<open>ValueError\<close>, which is not an \<^verbatim>\<open>UnknownCategoryError\<close>.
\<close>

theorem unseen_category_is_value_error:
  "preprocess_data example_pipeline
     [\<lparr>income = 60000, credit_score = 700, employment_status = ''Employed'',
       loan_type = ''Personal Loan''\<rparr>] False = Inl ValueError
   \<and> exception_name ValueError \<noteq> ''UnknownCategoryError''"
  by (simp add: preprocess_data_def encode_column_def example_pipeline_def
        LabelEncoder_transform_def Let_def)

text \<open>
  Claim C7, as the code has it. Training checks neither the size of the corpus nor the
  number of classes in it. On a corpus whose labels are the two known ones (all the same or
  not): with one row it fails with the \<^verbatim>\<open>ValueError\<close> of the train/test split, whose
  training part would be empty; with two rows or more it returns, with a fitted
  classifier. No exception of training is an \<^verbatim>\<open>InsufficientTrainingDataError\<close>.
\<close>

theorem train_has_no_data_check:
  assumes "\<forall>r\<in>set df. eligibility r \<in> {''Eligible'', ''Not Eligible''}"
  shows "(length df = 1 \<longrightarrow> train lib self df = Inl ValueError)
       \<and> (2 \<le> length df \<longrightarrow>
            (\<exists>res self'. train lib self df = Inr (res, self') \<and> model self' \<noteq> None))
       \<and> (train lib self df = Inl e \<longrightarrow>
            exception_name e \<noteq> ''InsufficientTrainingDataError'')"
proof (intro conjI impI)
  assume "length df = 1"
  then show "train lib self df = Inl ValueError"
    using assms by (rule train_one)
next
  assume "2 \<le> length df"
  then show "\<exists>res self'. train lib self df = Inr (res, self') \<and> model self' \<noteq> None"
    using assms by (rule train_ok)
next
  show "exception_name e \<noteq> ''InsufficientTrainingDataError''"
    by (cases e) simp_all
qed

theorem train_has_no_data_check_witness:
  "list_all (\<lambda>r. eligibility r = ''Eligible'') example_corpus
   \<and> 2 \<le> length example_corpus
   \<and> (\<exists>res self'. train (constant_forest 0) LoanEligibilityModel_init example_corpus
                     = Inr (res, self') \<and> model self' \<noteq> None)
   \<and> train (constant_forest 0) LoanEligibilityModel_init [hd example_corpus]
       = Inl ValueError"
  using train_has_no_data_check
          [of example_corpus "constant_forest 0" LoanEligibilityModel_init]
        train_has_no_data_check
          [of "[hd example_corpus]" "constant_forest 0" LoanEligibilityModel_init]
  by (simp add: example_corpus_def)

text \<open>
  Training does not refuse a degenerate corpus with a typed error: the two rows of
  \<open>example_corpus\<close> carry one label and training returns a fitted pipeline; a corpus of
  one row stops with \<^verbatim>\<open>ValueError\<close>, which is not an
  \<^verbatim>\<open>InsufficientTrainingDataError\<close>.
\<close>

theorem single_class_corpus_trains:
  "map eligibility example_corpus = [''Eligible'', ''Eligible'']
   \<and> train (constant_forest 0) LoanEligibilityModel_init example_corpus =
     Inr (([\<lparr>f_income = 0, f_credit_score = 0, f_employment_status = 0, f_loan_type = 0,
              f_income_to_loan_ratio = 0\<rparr>], [0], [0]),
          example_pipeline)
   \<and> train (constant_forest 0) LoanEligibilityModel_init
     [\<lparr>income = 60000, credit_score = 700, employment_status = ''Employed'',
       loan_type = ''Home Loan'', eligibility = ''Eligible''\<rparr>] = Inl ValueError
   \<and> exception_name ValueError \<noteq> ''InsufficientTrainingDataError''"
  using example_train example_train_one_row by (simp add: example_corpus_def)

text \<open>
  Claim C8. Saving a pipeline and loading the file back gives a pipeline with the same
  classifier, scaler, categorical encoders and target encoder, so that on every input the
  loaded pipeline predicts what the pipeline in memory predicts: the same labels and the
  same probabilities, or the same exception.
\<close>

theorem save_load_round_trip:
  "load_model filepath (save_model self filepath fs) = Inr self
 \<and> map_sum id (\<lambda>loaded. predict lib loaded df)
     (load_model filepath (save_model self filepath fs)) = Inr (predict lib self df)"
proof -
  have l: "load_model filepath (save_model self filepath fs) = Inr self"
    by (simp add: load_model_def save_model_def LoanEligibilityModel_init_def Let_def)
  show ?thesis by (simp add: l)
qed

end
